theory Spec2Isabelle
  imports Main "HOL-Library.Sublist" "HOL-Library.Word"
begin

unbundle bit_operations_syntax

section \<open>Python values used by \<^verbatim>\<open>flytekit/core/data_persistence.py\<close>\<close>

text \<open>
  Exceptions are values. The constructors are the exception classes the module defines,
  raises or catches; \<open>OSError\<close> stands for the class and its subclasses (what
  \<^verbatim>\<open>except OSError\<close> catches), \<open>PyException cls msg\<close> for any other subclass of
  \<^verbatim>\<open>Exception\<close>, named by its class. Every constructor carries the message, which is what
  \<^verbatim>\<open>str(ex)\<close> returns. Exceptions that are not subclasses of \<^verbatim>\<open>Exception\<close> (an interrupt,
  an exit) are no values of the type.
\<close>

datatype exc =
    TypeError string
  | AttributeError string
  | UnsupportedPersistenceOp string
  | OSError string
  | PyException string string

fun str_exc :: "exc \<Rightarrow> string" where
  "str_exc (TypeError m) = m"
| "str_exc (AttributeError m) = m"
| "str_exc (UnsupportedPersistenceOp m) = m"
| "str_exc (OSError m) = m"
| "str_exc (PyException c m) = m"

fun is_OSError :: "exc \<Rightarrow> bool" where
  "is_OSError (OSError m) = True"
| "is_OSError e = False"

text \<open>
  Modelled from the spec: the exception class \<^verbatim>\<open>FlyteAssertion\<close> of
  \<^verbatim>\<open>flytekit.common.exceptions.user\<close> is not among the source files. It is the spec's
  TransferFailure: a subclass of \<^verbatim>\<open>Exception\<close> that is raised with a message.
\<close>

definition FlyteAssertion :: "string \<Rightarrow> exc" where
  "FlyteAssertion m = PyException ''FlyteAssertion'' m"

text \<open>\<^verbatim>\<open>str(b)\<close> for a bool, as \<^verbatim>\<open>format\<close> and f-strings render it.\<close>

definition str_bool :: "bool \<Rightarrow> string" where
  "str_bool b = (if b then ''True'' else ''False'')"

text \<open>A string between single quotes, as error messages show names and paths.\<close>

definition quoted :: "string \<Rightarrow> string" where
  "quoted s = [CHR 0x27] @ s @ [CHR 0x27]"

text \<open>\<^verbatim>\<open>s.startswith(k)\<close>.\<close>

definition startswith :: "string \<Rightarrow> string \<Rightarrow> bool" where
  "startswith s k = prefix k s"

text \<open>\<^verbatim>\<open>s.endswith(k)\<close>.\<close>

definition endswith :: "string \<Rightarrow> string \<Rightarrow> bool" where
  "endswith s k = suffix k s"

text \<open>\<^verbatim>\<open>s.replace(old, new, 1)\<close>: the leftmost occurrence of \<open>old\<close> is replaced.\<close>

fun replace1 :: "string \<Rightarrow> string \<Rightarrow> string \<Rightarrow> string" where
  "replace1 old new [] = (if old = [] then new else [])"
| "replace1 old new (c # cs) =
     (if prefix old (c # cs) then new @ drop (length old) (c # cs)
      else c # replace1 old new cs)"

text \<open>
  A method that may change the world \<open>'w\<close> (the file system, a remote store) and may raise:
  it returns the exception or the value, and the world it leaves behind.
\<close>

type_synonym ('a, 'w) py = "'w \<Rightarrow> (exc + 'a) \<times> 'w"

text \<open>
  A Python dict keeps its keys in insertion order; assigning to a key that is present
  keeps the key's position. The dict is an association list with that update.
\<close>

primrec dict_set :: "'k \<Rightarrow> 'v \<Rightarrow> ('k \<times> 'v) list \<Rightarrow> ('k \<times> 'v) list" where
  "dict_set k v [] = [(k, v)]"
| "dict_set k v (e # es) = (if fst e = k then (k, v) # es else e # dict_set k v es)"

section \<open>The backend interface: class \<^verbatim>\<open>DataPersistence\<close>\<close>

text \<open>
  An instance of \<^verbatim>\<open>DataPersistence\<close> or of a subclass: its identity (\<^verbatim>\<open>id(obj)\<close>), its
  name, and its methods, whatever the subclass makes them. \<open>None\<close> as a return value
  is \<open>None\<close> of an option type where the source can return it (the bodies \<^verbatim>\<open>pass\<close>).
\<close>

record 'w DataPersistence =
  dp_oid :: nat
  dp_name :: string
  dp_listdir :: "string \<Rightarrow> bool \<Rightarrow> (string list, 'w) py"
  dp_exists :: "string \<Rightarrow> (bool option, 'w) py"
  dp_download_directory :: "string \<Rightarrow> string \<Rightarrow> (unit, 'w) py"
  dp_download :: "string \<Rightarrow> string \<Rightarrow> (unit, 'w) py"
  dp_upload :: "string \<Rightarrow> string \<Rightarrow> (unit, 'w) py"
  dp_upload_directory :: "string \<Rightarrow> string \<Rightarrow> (unit, 'w) py"
  dp_construct_path :: "bool \<Rightarrow> string list \<Rightarrow> exc + string option"

text \<open>
  \<^verbatim>\<open>DataPersistence(name)\<close> itself (the class has no ABC metaclass, so it can be
  instantiated): \<^verbatim>\<open>listdir\<close> raises, the other methods have the body \<^verbatim>\<open>pass\<close>.
  The second argument is the identity of the new object.
\<close>

definition DataPersistence_init :: "string \<Rightarrow> nat \<Rightarrow> 'w DataPersistence" where
  "DataPersistence_init nm i =
     \<lparr> dp_oid = i,
       dp_name = nm,
       dp_listdir = (\<lambda>path recursive w.
          (Inl (UnsupportedPersistenceOp
             (''Listing a directory is not supported by the persistence plugin '' @ nm)), w)),
       dp_exists = (\<lambda>path w. (Inr None, w)),
       dp_download_directory = (\<lambda>remote_path local_path w. (Inr (), w)),
       dp_download = (\<lambda>remote_path local_path w. (Inr (), w)),
       dp_upload = (\<lambda>file_path to_path w. (Inr (), w)),
       dp_upload_directory = (\<lambda>local_path remote_path w. (Inr (), w)),
       dp_construct_path = (\<lambda>add_protocol paths. Inr None) \<rparr>"

text \<open>
  \<^verbatim>\<open>p == plugin\<close>: neither class defines \<^verbatim>\<open>__eq__\<close>, so equality is identity.
\<close>

definition py_eq :: "'w DataPersistence \<Rightarrow> 'w DataPersistence \<Rightarrow> bool" where
  "py_eq p q = (dp_oid p = dp_oid q)"

section \<open>The registry: class \<^verbatim>\<open>DataPersistencePlugins\<close>\<close>

text \<open>The class attribute \<^verbatim>\<open>_PLUGINS\<close>, a dict from protocol to plugin.\<close>

type_synonym 'w plugins = "(string \<times> 'w DataPersistence) list"

text \<open>The f-string of the \<^verbatim>\<open>TypeError\<close> that \<^verbatim>\<open>register_plugin\<close> raises.\<close>

definition conflict_message :: "string \<Rightarrow> string \<Rightarrow> string \<Rightarrow> string" where
  "conflict_message plugin_name protocol p_name =
     ''Cannot register plugin '' @ plugin_name @ '' for protocol '' @ protocol
     @ '' as plugin '' @ p_name @ '' is already''
     @ '' registered for the same protocol. You can force register the new plugin by passing force=True''"

text \<open>
  \<^verbatim>\<open>register_plugin(protocol, plugin, force)\<close> returns \<^verbatim>\<open>None\<close> or raises, and leaves
  \<^verbatim>\<open>_PLUGINS\<close> as returned in the second component.
\<close>

definition register_plugin ::
  "string \<Rightarrow> 'w DataPersistence \<Rightarrow> bool \<Rightarrow> 'w plugins \<Rightarrow> (exc + unit) \<times> 'w plugins" where
  "register_plugin protocol plugin force PLUGINS =
     (case map_of PLUGINS protocol of
        Some p \<Rightarrow>
          if py_eq p plugin then (Inr (), PLUGINS)
          else if \<not> force then
            (Inl (TypeError (conflict_message (dp_name plugin) protocol (dp_name p))), PLUGINS)
          else (Inr (), dict_set protocol plugin PLUGINS)
      | None \<Rightarrow> (Inr (), dict_set protocol plugin PLUGINS))"

text \<open>\<^verbatim>\<open>find_plugin(path)\<close>: the loop over \<^verbatim>\<open>_PLUGINS.items()\<close>.\<close>

fun find_plugin :: "'w plugins \<Rightarrow> string \<Rightarrow> exc + 'w DataPersistence" where
  "find_plugin [] path =
     Inl (TypeError (''No plugin found for matching protocol of path '' @ path))"
| "find_plugin ((k, p) # rest) path =
     (if startswith path k then Inr p else find_plugin rest path)"

definition is_supported_protocol :: "'w plugins \<Rightarrow> string \<Rightarrow> bool" where
  "is_supported_protocol PLUGINS protocol = (map_of PLUGINS protocol \<noteq> None)"

section \<open>Library functions the module calls\<close>

subsection \<open>\<^verbatim>\<open>os.path\<close> on strings (\<^verbatim>\<open>posixpath\<close>)\<close>

text \<open>
  \<^verbatim>\<open>posixpath.join(a, *p)\<close>: a component that starts with the separator replaces what
  was joined so far; otherwise it is appended, after a separator unless the path so far is
  empty or ends with one.
\<close>

definition join_step :: "string \<Rightarrow> string \<Rightarrow> string" where
  "join_step path b =
     (if startswith b ''/'' then b
      else if path = [] \<or> endswith path ''/'' then path @ b
      else path @ ''/'' @ b)"

definition os_path_join :: "string \<Rightarrow> string list \<Rightarrow> string" where
  "os_path_join a p = foldl join_step a p"

text \<open>\<^verbatim>\<open>p.rfind(c)\<close>: the index of the last occurrence, or \<open>-1\<close>.\<close>

definition rfind :: "string \<Rightarrow> char \<Rightarrow> int" where
  "rfind p c =
     (if c \<in> set p then int (length p - length (takeWhile (\<lambda>x. x \<noteq> c) (rev p))) - 1 else - 1)"

text \<open>\<^verbatim>\<open>head.rstrip('/')\<close>.\<close>

definition rstrip_sep :: "string \<Rightarrow> string" where
  "rstrip_sep s = rev (dropWhile (\<lambda>x. x = CHR ''/'') (rev s))"

text \<open>\<^verbatim>\<open>posixpath.split(p)\<close>, returning \<open>(head, tail)\<close>.\<close>

definition os_path_split :: "string \<Rightarrow> string \<times> string" where
  "os_path_split p =
     (let i = nat (rfind p (CHR ''/'') + 1);
          head = take i p;
          tail = drop i p
      in (if head \<noteq> [] \<and> head \<noteq> replicate (length head) (CHR ''/'') then rstrip_sep head else head,
          tail))"

text \<open>\<^verbatim>\<open>posixpath.dirname(p)\<close>.\<close>

definition os_path_dirname :: "string \<Rightarrow> string" where
  "os_path_dirname p =
     (let i = nat (rfind p (CHR ''/'') + 1);
          head = take i p
      in if head \<noteq> [] \<and> head \<noteq> replicate (length head) (CHR ''/'') then rstrip_sep head else head)"

subsection \<open>The file system calls\<close>

text \<open>
  The calls into \<^verbatim>\<open>os\<close>, \<^verbatim>\<open>shutil\<close>, \<^verbatim>\<open>distutils.dir_util\<close> and \<^verbatim>\<open>pathlib\<close> that act on the
  file system. The module's functions take them as a parameter, so what is proved of a
  function for every \<open>os\<close> holds whatever the platform does; section
  \<open>A file system\<close> gives one implementation, on which the functions are run.
  \<^item> \<open>os_path_exists\<close>, \<open>os_path_isdir\<close>: \<^verbatim>\<open>os.path.exists\<close>, \<^verbatim>\<open>os.path.isdir\<close>;
  \<^item> \<open>os_makedirs\<close>: \<^verbatim>\<open>os.makedirs(path)\<close>;
  \<^item> \<open>os_listdir\<close>: \<^verbatim>\<open>os.listdir(path)\<close>;
  \<^item> \<open>os_walk\<close>: the triples \<open>(root, subdirs, files)\<close> that \<^verbatim>\<open>os.walk(path)\<close> yields;
  \<^item> \<open>copyfile\<close>: \<^verbatim>\<open>shutil.copyfile(src, dst)\<close>;
  \<^item> \<open>copy_tree\<close>: \<^verbatim>\<open>distutils.dir_util.copy_tree(src, dst)\<close> (its result, the list of
    files written, is dropped by the caller);
  \<^item> \<open>path_mkdir\<close>: \<^verbatim>\<open>pathlib.Path(p).mkdir(parents=True, exist_ok=True)\<close>.
\<close>

record 'w os_api =
  os_path_exists :: "string \<Rightarrow> 'w \<Rightarrow> bool"
  os_path_isdir :: "string \<Rightarrow> 'w \<Rightarrow> bool"
  os_makedirs :: "string \<Rightarrow> (unit, 'w) py"
  os_listdir :: "string \<Rightarrow> 'w \<Rightarrow> exc + string list"
  os_walk :: "string \<Rightarrow> 'w \<Rightarrow> (string \<times> string list \<times> string list) list"
  copyfile :: "string \<Rightarrow> string \<Rightarrow> (unit, 'w) py"
  copy_tree :: "string \<Rightarrow> string \<Rightarrow> (unit, 'w) py"
  path_mkdir :: "string \<Rightarrow> (unit, 'w) py"

section \<open>The disk backend: class \<^verbatim>\<open>DiskPersistence\<close>\<close>

definition PROTOCOL :: string where
  "PROTOCOL = ''file://''"

text \<open>\<^verbatim>\<open>_make_local_path(path)\<close>.\<close>

definition make_local_path :: "'w os_api \<Rightarrow> string \<Rightarrow> (unit, 'w) py" where
  "make_local_path os path w =
     (if \<not> os_path_exists os path w then
        (case os_makedirs os path w of
           (Inl e, w') \<Rightarrow>
             if is_OSError e then
               (if \<not> os_path_isdir os path w' then (Inl e, w') else (Inr (), w'))
             else (Inl e, w')
         | (Inr u, w') \<Rightarrow> (Inr (), w'))
      else (Inr (), w))"

definition strip_file_header :: "string \<Rightarrow> string" where
  "strip_file_header path =
     (if startswith path ''file://'' then replace1 ''file://'' [] path else path)"

text \<open>
  \<^verbatim>\<open>listdir(path, recursive)\<close> is a generator; the model gives the list of what it yields
  when run to its end, or the exception that ends it.
\<close>

definition DiskPersistence_listdir :: "'w os_api \<Rightarrow> string \<Rightarrow> bool \<Rightarrow> (string list, 'w) py" where
  "DiskPersistence_listdir os path recursive w =
     (if \<not> recursive then (os_listdir os (strip_file_header path) w, w)
      else
        (Inr (concat (map (\<lambda>(root, subdirs, files). map (\<lambda>f. os_path_join root [f]) files)
                          (os_walk os (strip_file_header path) w))), w))"

definition DiskPersistence_exists :: "'w os_api \<Rightarrow> string \<Rightarrow> 'w \<Rightarrow> bool" where
  "DiskPersistence_exists os path w = os_path_exists os (strip_file_header path) w"

definition DiskPersistence_download_directory ::
  "'w os_api \<Rightarrow> string \<Rightarrow> string \<Rightarrow> (unit, 'w) py" where
  "DiskPersistence_download_directory os from_path to_path w =
     (if from_path \<noteq> to_path then
        copy_tree os (strip_file_header from_path) (strip_file_header to_path) w
      else (Inr (), w))"

definition DiskPersistence_download :: "'w os_api \<Rightarrow> string \<Rightarrow> string \<Rightarrow> (unit, 'w) py" where
  "DiskPersistence_download os from_path to_path w =
     copyfile os (strip_file_header from_path) (strip_file_header to_path) w"

definition DiskPersistence_upload :: "'w os_api \<Rightarrow> string \<Rightarrow> string \<Rightarrow> (unit, 'w) py" where
  "DiskPersistence_upload os from_path to_path w =
     (case make_local_path os (os_path_dirname (strip_file_header to_path)) w of
        (Inl e, w') \<Rightarrow> (Inl e, w')
      | (Inr u, w') \<Rightarrow> copyfile os (strip_file_header from_path) (strip_file_header to_path) w')"

definition DiskPersistence_upload_directory ::
  "'w os_api \<Rightarrow> string \<Rightarrow> string \<Rightarrow> (unit, 'w) py" where
  "DiskPersistence_upload_directory os from_path to_path w =
     DiskPersistence_download_directory os from_path to_path w"

text \<open>
  \<^verbatim>\<open>construct_path(add_protocol, *args)\<close>; \<^verbatim>\<open>os.path.join()\<close> without an argument is a
  \<^verbatim>\<open>TypeError\<close>.
\<close>

definition DiskPersistence_construct_path :: "bool \<Rightarrow> string list \<Rightarrow> exc + string" where
  "DiskPersistence_construct_path add_protocol args =
     (if add_protocol then Inr (os_path_join PROTOCOL args)
      else (case args of
              [] \<Rightarrow> Inl (TypeError ''join() missing 1 required positional argument'')
            | a # p \<Rightarrow> Inr (os_path_join a p)))"

text \<open>\<^verbatim>\<open>DiskPersistence()\<close>; the second argument is the identity of the new object.\<close>

definition DiskPersistence :: "'w os_api \<Rightarrow> nat \<Rightarrow> 'w DataPersistence" where
  "DiskPersistence os i =
     \<lparr> dp_oid = i,
       dp_name = ''local'',
       dp_listdir = DiskPersistence_listdir os,
       dp_exists = (\<lambda>path w. (Inr (Some (DiskPersistence_exists os path w)), w)),
       dp_download_directory = DiskPersistence_download_directory os,
       dp_download = DiskPersistence_download os,
       dp_upload = DiskPersistence_upload os,
       dp_upload_directory = DiskPersistence_upload_directory os,
       dp_construct_path = (\<lambda>add_protocol args.
          map_sum id Some (DiskPersistence_construct_path add_protocol args)) \<rparr>"

section \<open>The storage client: class \<^verbatim>\<open>FileAccessProvider\<close>\<close>

record 'w FileAccessProvider =
  fap_local_sandbox_dir :: string
  fap_local :: "'w DataPersistence"
  fap_default_remote :: "'w DataPersistence"
  fap_raw_output_prefix :: string

text \<open>
  \<^verbatim>\<open>__init__(local_sandbox_dir, raw_output_prefix)\<close>, run with the registry \<open>PLUGINS\<close>;
  \<open>i\<close> is the identity of the \<^verbatim>\<open>DiskPersistence()\<close> it creates. The sandbox directory
  is kept as the joined string (\<^verbatim>\<open>pathlib.Path\<close> would also drop doubled and trailing
  separators).
\<close>

definition FileAccessProvider_init ::
  "'w os_api \<Rightarrow> 'w plugins \<Rightarrow> nat \<Rightarrow> string option \<Rightarrow> string \<Rightarrow> ('w FileAccessProvider, 'w) py" where
  "FileAccessProvider_init os PLUGINS i local_sandbox_dir raw_output_prefix w =
     (if local_sandbox_dir = None \<or> local_sandbox_dir = Some [] then
        (Inl (PyException ''Exception'' ''Can't use empty path''), w)
      else
        (let local_sandbox_dir_appended = os_path_join (the local_sandbox_dir) [''local_flytekit'']
         in case path_mkdir os local_sandbox_dir_appended w of
              (Inl e, w') \<Rightarrow> (Inl e, w')
            | (Inr u, w') \<Rightarrow>
                (case find_plugin PLUGINS raw_output_prefix of
                   Inl e \<Rightarrow> (Inl e, w')
                 | Inr p \<Rightarrow>
                     (Inr \<lparr> fap_local_sandbox_dir = local_sandbox_dir_appended,
                            fap_local = DiskPersistence os i,
                            fap_default_remote = p,
                            fap_raw_output_prefix = raw_output_prefix \<rparr>, w'))))"

definition is_remote :: "string \<Rightarrow> bool" where
  "is_remote path = (if startswith path ''/'' \<or> startswith path ''file://'' then False else True)"

text \<open>
  \<^verbatim>\<open>UUID(int=n).hex\<close> is \<^verbatim>\<open>'%032x' % n\<close>: the 32 hexadecimal digits of the 128-bit
  value, most significant first.
\<close>

definition hex_digit :: "nat \<Rightarrow> char" where
  "hex_digit d = ''0123456789abcdef'' ! d"

definition uuid_hex :: "128 word \<Rightarrow> string" where
  "uuid_hex n = map (\<lambda>i. hex_digit (unat (drop_bit (4 * (31 - i)) n AND 15))) [0..<32]"

text \<open>
  The objects that the expression \<^verbatim>\<open>random.random.getrandbits(128)\<close> goes through: an
  instance of \<^verbatim>\<open>random.Random\<close>, and the method objects that reading an attribute of the
  instance gives. \<open>attr\<close> are the two attribute names the module reads.
\<close>

datatype attr = Attr_random | Attr_getrandbits

fun attr_name :: "attr \<Rightarrow> string" where
  "attr_name Attr_random = ''random''"
| "attr_name Attr_getrandbits = ''getrandbits''"

datatype pyobj = Random_instance | Builtin_method attr

text \<open>
  \<^verbatim>\<open>obj.name\<close>: both names are methods of \<^verbatim>\<open>random.Random\<close>; a method object has neither
  as an attribute.
\<close>

fun getattr :: "pyobj \<Rightarrow> attr \<Rightarrow> exc + pyobj" where
  "getattr Random_instance a = Inr (Builtin_method a)"
| "getattr (Builtin_method m) a =
     Inl (AttributeError (quoted ''builtin_function_or_method'' @ '' object has no attribute ''
                          @ quoted (attr_name a)))"

text \<open>
  \<^verbatim>\<open>f(128)\<close>: \<^verbatim>\<open>getrandbits(128)\<close> of the generator draws the 128-bit value \<open>bits\<close>;
  \<^verbatim>\<open>random()\<close> takes no argument, and the instance is not callable.
\<close>

fun call_128 :: "pyobj \<Rightarrow> 128 word \<Rightarrow> exc + 128 word" where
  "call_128 (Builtin_method Attr_getrandbits) bits = Inr bits"
| "call_128 (Builtin_method Attr_random) bits =
     Inl (TypeError ''Random.random() takes no arguments (1 given)'')"
| "call_128 Random_instance bits = Inl (TypeError (quoted ''Random'' @ '' object is not callable''))"

text \<open>
  Modelled from the spec: \<^verbatim>\<open>flytekit/interfaces/random.py\<close> is not among the source files.
  The name \<^verbatim>\<open>random\<close> that line 15 imports from it (\<^verbatim>\<open>from flytekit.interfaces.random
  import random\<close>) is what the spec has the client draw its 128-bit random value from: the
  random number generator of the package, an instance of \<^verbatim>\<open>random.Random\<close>.
\<close>

definition interfaces_random :: pyobj where
  "interfaces_random = Random_instance"

text \<open>
  \<^verbatim>\<open>construct_random_path(persist, file_path_or_file_name)\<close>. The first statement reads
  \<^verbatim>\<open>random.random\<close>, then \<^verbatim>\<open>getrandbits\<close> of that, and calls the result; \<open>bits\<close> is the
  value the generator would draw. The warning written to the logger is not part of the
  result.
\<close>

definition construct_random_path ::
  "'w FileAccessProvider \<Rightarrow> 'w DataPersistence \<Rightarrow> string option \<Rightarrow> 128 word \<Rightarrow> exc + string option" where
  "construct_random_path self persist file_path_or_file_name bits =
     (case getattr interfaces_random Attr_random of
        Inl e \<Rightarrow> Inl e
      | Inr random_random \<Rightarrow>
     (case getattr random_random Attr_getrandbits of
        Inl e \<Rightarrow> Inl e
      | Inr getrandbits \<Rightarrow>
     (case call_128 getrandbits bits of
        Inl e \<Rightarrow> Inl e
      | Inr n \<Rightarrow>
     (let key = uuid_hex n
      in if file_path_or_file_name \<noteq> None \<and> file_path_or_file_name \<noteq> Some [] then
           (let tail = snd (os_path_split (the file_path_or_file_name))
            in if tail \<noteq> [] then
                 dp_construct_path persist False [fap_raw_output_prefix self, key, tail]
               else dp_construct_path persist False [fap_raw_output_prefix self, key])
         else dp_construct_path persist False [fap_raw_output_prefix self, key]))))"

definition get_random_remote_path ::
  "'w FileAccessProvider \<Rightarrow> string option \<Rightarrow> 128 word \<Rightarrow> exc + string option" where
  "get_random_remote_path self file_path_or_file_name bits =
     construct_random_path self (fap_default_remote self) file_path_or_file_name bits"

definition get_random_remote_directory ::
  "'w FileAccessProvider \<Rightarrow> 128 word \<Rightarrow> exc + string option" where
  "get_random_remote_directory self bits = get_random_remote_path self None bits"

definition get_random_local_path ::
  "'w FileAccessProvider \<Rightarrow> string option \<Rightarrow> 128 word \<Rightarrow> exc + string option" where
  "get_random_local_path self file_path_or_file_name bits =
     construct_random_path self (fap_local self) file_path_or_file_name bits"

text \<open>
  \<^verbatim>\<open>get_random_local_directory()\<close>: the random local path is created as a directory of
  the local file system (\<^verbatim>\<open>pathlib.Path(None)\<close> is a \<^verbatim>\<open>TypeError\<close>).
\<close>

definition get_random_local_directory ::
  "'w os_api \<Rightarrow> 'w FileAccessProvider \<Rightarrow> 128 word \<Rightarrow> (string, 'w) py" where
  "get_random_local_directory os self bits w =
     (case get_random_local_path self None bits of
        Inl e \<Rightarrow> (Inl e, w)
      | Inr None \<Rightarrow> (Inl (TypeError ''expected str, bytes or os.PathLike object, not NoneType''), w)
      | Inr (Some dir) \<Rightarrow>
          (case path_mkdir os dir w of
             (Inl e, w') \<Rightarrow> (Inl e, w')
           | (Inr u, w') \<Rightarrow> (Inr dir, w')))"

text \<open>The pass-through operations: each resolves its backend in the registry.\<close>

definition FileAccessProvider_exists :: "'w plugins \<Rightarrow> string \<Rightarrow> (bool option, 'w) py" where
  "FileAccessProvider_exists PLUGINS path w =
     (case find_plugin PLUGINS path of
        Inl e \<Rightarrow> (Inl e, w)
      | Inr p \<Rightarrow> dp_exists p path w)"

definition FileAccessProvider_download_directory ::
  "'w plugins \<Rightarrow> string \<Rightarrow> string \<Rightarrow> (unit, 'w) py" where
  "FileAccessProvider_download_directory PLUGINS remote_path local_path w =
     (case find_plugin PLUGINS remote_path of
        Inl e \<Rightarrow> (Inl e, w)
      | Inr p \<Rightarrow> dp_download_directory p remote_path local_path w)"

definition FileAccessProvider_download :: "'w plugins \<Rightarrow> string \<Rightarrow> string \<Rightarrow> (unit, 'w) py" where
  "FileAccessProvider_download PLUGINS remote_path local_path w =
     (case find_plugin PLUGINS remote_path of
        Inl e \<Rightarrow> (Inl e, w)
      | Inr p \<Rightarrow> dp_download p remote_path local_path w)"

definition FileAccessProvider_upload :: "'w plugins \<Rightarrow> string \<Rightarrow> string \<Rightarrow> (unit, 'w) py" where
  "FileAccessProvider_upload PLUGINS file_path to_path w =
     (case find_plugin PLUGINS to_path of
        Inl e \<Rightarrow> (Inl e, w)
      | Inr p \<Rightarrow> dp_upload p file_path to_path w)"

definition FileAccessProvider_upload_directory ::
  "'w plugins \<Rightarrow> string \<Rightarrow> string \<Rightarrow> (unit, 'w) py" where
  "FileAccessProvider_upload_directory PLUGINS local_path remote_path w =
     (case find_plugin PLUGINS remote_path of
        Inl e \<Rightarrow> (Inl e, w)
      | Inr p \<Rightarrow> dp_upload_directory p local_path remote_path w)"

text \<open>
  Modelled from the spec: \<^verbatim>\<open>flytekit.common.utils.PerformanceTimer\<close> is not among the
  source files. The spec calls \<^verbatim>\<open>getData\<close> and \<^verbatim>\<open>putData\<close> timed wrappers: the context
  manager measures the time its body takes, and neither changes what the body does nor
  catches what it raises.
\<close>

definition PerformanceTimer :: "string \<Rightarrow> ('a, 'w) py \<Rightarrow> ('a, 'w) py" where
  "PerformanceTimer context_statement body = body"

text \<open>The messages of the \<^verbatim>\<open>FlyteAssertion\<close> that \<^verbatim>\<open>get_data\<close> and \<^verbatim>\<open>put_data\<close> raise.\<close>

definition get_data_message :: "string \<Rightarrow> string \<Rightarrow> bool \<Rightarrow> string \<Rightarrow> string" where
  "get_data_message remote_path local_path is_multipart error_string =
     ''Failed to get data from '' @ remote_path @ '' to '' @ local_path
     @ '' (recursive='' @ str_bool is_multipart @ '').'' @ [CHR 0x0A, CHR 0x0A]
     @ ''Original exception: '' @ error_string"

definition put_data_message :: "string \<Rightarrow> string \<Rightarrow> bool \<Rightarrow> string \<Rightarrow> string" where
  "put_data_message local_path remote_path is_multipart error_string =
     ''Failed to put data from '' @ local_path @ '' to '' @ remote_path
     @ '' (recursive='' @ str_bool is_multipart @ '').'' @ [CHR 0x0A, CHR 0x0A]
     @ ''Original exception: '' @ error_string"

text \<open>
  \<^verbatim>\<open>get_data(remote_path, local_path, is_multipart)\<close>: \<^verbatim>\<open>except Exception\<close> catches every
  value of \<open>exc\<close>.
\<close>

definition get_data :: "'w plugins \<Rightarrow> string \<Rightarrow> string \<Rightarrow> bool \<Rightarrow> (unit, 'w) py" where
  "get_data PLUGINS remote_path local_path is_multipart w =
     (case PerformanceTimer (''Copying ('' @ remote_path @ '' -> '' @ local_path @ '')'')
             (if is_multipart then FileAccessProvider_download_directory PLUGINS remote_path local_path
              else FileAccessProvider_download PLUGINS remote_path local_path) w of
        (Inl ex, w') \<Rightarrow>
          (Inl (FlyteAssertion (get_data_message remote_path local_path is_multipart (str_exc ex))), w')
      | (Inr u, w') \<Rightarrow> (Inr (), w'))"

text \<open>
  \<^verbatim>\<open>put_data(local_path, remote_path, is_multipart)\<close>: the upload is a method call on
  \<^verbatim>\<open>self._default_remote\<close>; the function reads no registry.
\<close>

definition put_data :: "'w FileAccessProvider \<Rightarrow> string \<Rightarrow> string \<Rightarrow> bool \<Rightarrow> (unit, 'w) py" where
  "put_data self local_path remote_path is_multipart w =
     (case PerformanceTimer (''Writing ('' @ local_path @ '' -> '' @ remote_path @ '')'')
             (if is_multipart then dp_upload_directory (fap_default_remote self) local_path remote_path
              else dp_upload (fap_default_remote self) local_path remote_path) w of
        (Inl ex, w') \<Rightarrow>
          (Inl (FlyteAssertion (put_data_message local_path remote_path is_multipart (str_exc ex))), w')
      | (Inr u, w') \<Rightarrow> (Inr (), w'))"

section \<open>A file system\<close>

text \<open>
  One implementation of the file system calls, on which the disk backend is run: the
  world is the root directory of a tree of directories and files. A directory lists its
  entries in the order \<^verbatim>\<open>os.listdir\<close> and \<^verbatim>\<open>os.walk\<close> report them. Paths are resolved from
  the root, which is also the working directory. There are no symbolic links, and a path
  through \<^verbatim>\<open>..\<close> names nothing here: what is proved on this file system is proved for
  the paths it resolves.
\<close>

datatype node = File string | Dir "(string \<times> node) list"

text \<open>\<^verbatim>\<open>p.split('/')\<close>.\<close>

fun split_sep :: "string \<Rightarrow> string list" where
  "split_sep [] = [[]]"
| "split_sep (c # cs) =
     (if c = CHR ''/'' then [] # split_sep cs
      else (case split_sep cs of [] \<Rightarrow> [[c]] | x # xs \<Rightarrow> (c # x) # xs))"

text \<open>The names a path walks through: empty components and \<^verbatim>\<open>.\<close> stay where they are.\<close>

definition components :: "string \<Rightarrow> string list" where
  "components p = filter (\<lambda>c. c \<noteq> [] \<and> c \<noteq> ''.'') (split_sep p)"

fun lookup :: "node \<Rightarrow> string list \<Rightarrow> node option" where
  "lookup n [] = Some n"
| "lookup (File c) (x # xs) = None"
| "lookup (Dir es) (x # xs) =
     (case map_of es x of None \<Rightarrow> None | Some n \<Rightarrow> lookup n xs)"

text \<open>
  What a path names: nothing for the empty path, and nothing for a file followed by a
  separator.
\<close>

definition resolve :: "node \<Rightarrow> string \<Rightarrow> node option" where
  "resolve fs p =
     (if p = [] then None
      else (case lookup fs (components p) of
              Some (File c) \<Rightarrow>
                if last (split_sep p) = [] \<or> last (split_sep p) = ''.'' then None else Some (File c)
            | r \<Rightarrow> r))"

definition FileNotFoundError :: "string \<Rightarrow> exc" where
  "FileNotFoundError p = OSError (''[Errno 2] No such file or directory: '' @ quoted p)"

definition FileExistsError :: "string \<Rightarrow> exc" where
  "FileExistsError p = OSError (''[Errno 17] File exists: '' @ quoted p)"

definition NotADirectoryError :: "string \<Rightarrow> exc" where
  "NotADirectoryError p = OSError (''[Errno 20] Not a directory: '' @ quoted p)"

definition IsADirectoryError :: "string \<Rightarrow> exc" where
  "IsADirectoryError p = OSError (''[Errno 21] Is a directory: '' @ quoted p)"

definition DistutilsFileError :: "string \<Rightarrow> exc" where
  "DistutilsFileError m = PyException ''DistutilsFileError'' m"

definition tree_exists :: "string \<Rightarrow> node \<Rightarrow> bool" where
  "tree_exists p fs = (resolve fs p \<noteq> None)"

definition tree_isdir :: "string \<Rightarrow> node \<Rightarrow> bool" where
  "tree_isdir p fs = (case resolve fs p of Some (Dir es) \<Rightarrow> True | _ \<Rightarrow> False)"

definition tree_listdir :: "string \<Rightarrow> node \<Rightarrow> exc + string list" where
  "tree_listdir p fs =
     (case resolve fs p of
        Some (Dir es) \<Rightarrow> Inr (map fst es)
      | Some (File c) \<Rightarrow> Inl (NotADirectoryError p)
      | None \<Rightarrow> Inl (FileNotFoundError p))"

text \<open>
  \<^verbatim>\<open>os.walk(top)\<close>, top down: the triple of a directory, then the walks of its
  subdirectories, each under \<^verbatim>\<open>os.path.join(top, name)\<close>. A \<open>top\<close> that is not a
  directory yields nothing (the error of the scan is ignored).
\<close>

fun walk_node :: "string \<Rightarrow> node \<Rightarrow> (string \<times> string list \<times> string list) list" where
  "walk_node top_dir (File c) = []"
| "walk_node top_dir (Dir es) =
     (top_dir,
      map fst (filter (\<lambda>e. case snd e of Dir d \<Rightarrow> True | File c \<Rightarrow> False) es),
      map fst (filter (\<lambda>e. case snd e of Dir d \<Rightarrow> False | File c \<Rightarrow> True) es))
     # concat (map (\<lambda>e. walk_node (os_path_join top_dir [fst e]) (snd e)) es)"

definition tree_walk :: "string \<Rightarrow> node \<Rightarrow> (string \<times> string list \<times> string list) list" where
  "tree_walk top_dir fs = (case resolve fs top_dir of Some (Dir es) \<Rightarrow> walk_node top_dir (Dir es) | _ \<Rightarrow> [])"

text \<open>
  Creating the directories along a path, those that are missing; \<open>None\<close> when a file
  is in the way.
\<close>

fun mkdirs :: "string list \<Rightarrow> node \<Rightarrow> node option" where
  "mkdirs xs (File c) = None"
| "mkdirs [] (Dir es) = Some (Dir es)"
| "mkdirs (x # xs) (Dir es) =
     (case mkdirs xs (case map_of es x of None \<Rightarrow> Dir [] | Some n \<Rightarrow> n) of
        None \<Rightarrow> None
      | Some n' \<Rightarrow> Some (Dir (dict_set x n' es)))"

text \<open>Writing a file with the given content; its directory must exist.\<close>

fun write_file :: "string list \<Rightarrow> string \<Rightarrow> node \<Rightarrow> node option" where
  "write_file xs content (File c) = (if xs = [] then Some (File content) else None)"
| "write_file [] content (Dir es) = None"
| "write_file (x # xs) content (Dir es) =
     (case map_of es x of
        None \<Rightarrow> if xs = [] then Some (Dir (dict_set x (File content) es)) else None
      | Some n \<Rightarrow>
          (case write_file xs content n of
             None \<Rightarrow> None
           | Some n' \<Rightarrow> Some (Dir (dict_set x n' es))))"

definition tree_makedirs :: "string \<Rightarrow> (unit, node) py" where
  "tree_makedirs p fs =
     (if p = [] then (Inl (FileNotFoundError p), fs)
      else if tree_exists p fs then (Inl (FileExistsError p), fs)
      else (case mkdirs (components p) fs of
              None \<Rightarrow> (Inl (NotADirectoryError p), fs)
            | Some fs' \<Rightarrow> (Inr (), fs')))"

definition tree_path_mkdir :: "string \<Rightarrow> (unit, node) py" where
  "tree_path_mkdir p fs =
     (case mkdirs (components p) fs of
        None \<Rightarrow> (Inl (FileExistsError p), fs)
      | Some fs' \<Rightarrow> (Inr (), fs'))"

text \<open>
  \<^verbatim>\<open>shutil.copyfile(src, dst)\<close>: the source must be a file, the destination must not be
  the same file nor a directory, and its directory must exist.
\<close>

definition tree_copyfile :: "string \<Rightarrow> string \<Rightarrow> (unit, node) py" where
  "tree_copyfile src dst fs =
     (case resolve fs src of
        None \<Rightarrow> (Inl (FileNotFoundError src), fs)
      | Some (Dir es) \<Rightarrow> (Inl (IsADirectoryError src), fs)
      | Some (File content) \<Rightarrow>
          if resolve fs dst \<noteq> None \<and> components src = components dst then
            (Inl (OSError (quoted src @ '' and '' @ quoted dst @ '' are the same file'')), fs)
          else if tree_isdir dst fs \<or> dst = [] \<or> last (split_sep dst) = []
                  \<or> last (split_sep dst) = ''.'' then
            (Inl (IsADirectoryError dst), fs)
          else (case write_file (components dst) content fs of
                  None \<Rightarrow> (Inl (FileNotFoundError dst), fs)
                | Some fs' \<Rightarrow> (Inr (), fs')))"

text \<open>
  \<^verbatim>\<open>distutils.dir_util.copy_tree(src, dst)\<close>: the source must be a directory; the
  destination is created with its parents (\<^verbatim>\<open>mkpath\<close>), then each entry is copied, a
  directory by a recursive call and a file by \<^verbatim>\<open>copy_file\<close> (into the destination when
  that is a directory); entries named \<^verbatim>\<open>.nfs*\<close> are skipped. The entries are those the
  source has when the call starts.
\<close>

definition mkpath :: "string \<Rightarrow> (unit, node) py" where
  "mkpath name fs =
     (if tree_isdir name fs \<or> name = [] then (Inr (), fs)
      else (case mkdirs (components name) fs of
              None \<Rightarrow> (Inl (DistutilsFileError (''could not create '' @ quoted name @ '': File exists'')), fs)
            | Some fs' \<Rightarrow> (Inr (), fs')))"

definition copy_file :: "string \<Rightarrow> string \<Rightarrow> string \<Rightarrow> (unit, node) py" where
  "copy_file content name dst fs =
     (let dst' = (if tree_isdir dst fs then os_path_join dst [name] else dst)
      in if tree_isdir dst' fs then
           (Inl (DistutilsFileError (''could not open '' @ quoted dst' @ '': Is a directory'')), fs)
         else (case write_file (components dst') content fs of
                 None \<Rightarrow> (Inl (DistutilsFileError (''could not create '' @ quoted dst' @ '': No such file or directory'')), fs)
               | Some fs' \<Rightarrow> (Inr (), fs')))"

fun copy_tree_from :: "node \<Rightarrow> string \<Rightarrow> string \<Rightarrow> (unit, node) py"
  and copy_names :: "(string \<times> node) list \<Rightarrow> string \<Rightarrow> string \<Rightarrow> (unit, node) py" where
  "copy_tree_from (File c) src dst fs =
     (Inl (DistutilsFileError (''cannot copy tree '' @ quoted src @ '': not a directory'')), fs)"
| "copy_tree_from (Dir es) src dst fs =
     (case mkpath dst fs of
        (Inl e, fs') \<Rightarrow> (Inl e, fs')
      | (Inr u, fs') \<Rightarrow> copy_names es src dst fs')"
| "copy_names [] src dst fs = (Inr (), fs)"
| "copy_names (e # es) src dst fs =
     (if startswith (fst e) ''.nfs'' then copy_names es src dst fs
      else (case (case snd e of
                    Dir d \<Rightarrow> copy_tree_from (snd e) (os_path_join src [fst e]) (os_path_join dst [fst e]) fs
                  | File content \<Rightarrow> copy_file content (fst e) (os_path_join dst [fst e]) fs) of
              (Inl ex, fs') \<Rightarrow> (Inl ex, fs')
            | (Inr u, fs') \<Rightarrow> copy_names es src dst fs'))"

definition tree_copy_tree :: "string \<Rightarrow> string \<Rightarrow> (unit, node) py" where
  "tree_copy_tree src dst fs =
     (case resolve fs src of
        Some (Dir es) \<Rightarrow> copy_tree_from (Dir es) src dst fs
      | _ \<Rightarrow> (Inl (DistutilsFileError (''cannot copy tree '' @ quoted src @ '': not a directory'')), fs))"

definition tree_os :: "node os_api" where
  "tree_os =
     \<lparr> os_path_exists = tree_exists,
       os_path_isdir = tree_isdir,
       os_makedirs = tree_makedirs,
       os_listdir = tree_listdir,
       os_walk = tree_walk,
       copyfile = tree_copyfile,
       copy_tree = tree_copy_tree,
       path_mkdir = tree_path_mkdir \<rparr>"

text \<open>
  What the spec's words for the recursive listing denote on a tree: the files below a
  directory, each by its path relative to that directory, in the order of the walk (the
  files of the directory itself, then those of each subdirectory).
\<close>

fun rel_files :: "node \<Rightarrow> string list" where
  "rel_files (File c) = []"
| "rel_files (Dir es) =
     map fst (filter (\<lambda>e. case snd e of Dir d \<Rightarrow> False | File c \<Rightarrow> True) es)
     @ concat (map (\<lambda>e. map (\<lambda>r. fst e @ ''/'' @ r) (rel_files (snd e))) es)"

text \<open>The names of the entries of a tree are file names: not empty, and without a separator.\<close>

fun valid_names :: "node \<Rightarrow> bool" where
  "valid_names (File c) = True"
| "valid_names (Dir es) =
     list_all (\<lambda>e. fst e \<noteq> [] \<and> CHR ''/'' \<notin> set (fst e) \<and> valid_names (snd e)) es"

section \<open>A log of the file system calls\<close>

text \<open>
  A second implementation of the file system calls, which only records them: the world
  is the list of the calls that write, in the order they were made. Nothing exists and
  every call succeeds.
\<close>

datatype call =
    Makedirs string
  | Copyfile string string
  | Copy_tree string string
  | Mkdir string

definition log_os :: "call list os_api" where
  "log_os =
     \<lparr> os_path_exists = (\<lambda>p w. False),
       os_path_isdir = (\<lambda>p w. False),
       os_makedirs = (\<lambda>p w. (Inr (), w @ [Makedirs p])),
       os_listdir = (\<lambda>p w. Inr []),
       os_walk = (\<lambda>p w. []),
       copyfile = (\<lambda>src dst w. (Inr (), w @ [Copyfile src dst])),
       copy_tree = (\<lambda>src dst w. (Inr (), w @ [Copy_tree src dst])),
       path_mkdir = (\<lambda>p w. (Inr (), w @ [Mkdir p])) \<rparr>"

section \<open>The module's top level\<close>

text \<open>
  The registry after the two registrations at the end of the module, each of its own
  \<^verbatim>\<open>DiskPersistence()\<close> (the objects 0 and 1).
\<close>

definition module_PLUGINS :: "'w os_api \<Rightarrow> 'w plugins" where
  "module_PLUGINS os =
     snd (register_plugin ''/'' (DiskPersistence os 1) False
       (snd (register_plugin ''file://'' (DiskPersistence os 0) False [])))"

text \<open>
  \<^verbatim>\<open>default_local_file_access_provider\<close>; \<open>now\<close> is the time stamp
  \<^verbatim>\<open>datetime.datetime.now().strftime("%Y%m%d_%H%M%S")\<close>, and 2 the identity of the
  \<^verbatim>\<open>DiskPersistence()\<close> of the provider.
\<close>

definition default_local_file_access_provider ::
  "'w os_api \<Rightarrow> string \<Rightarrow> ('w FileAccessProvider, 'w) py" where
  "default_local_file_access_provider os now =
     (let tmp_dir = os_path_join ''/tmp/flyte'' [now]
      in FileAccessProvider_init os (module_PLUGINS os) 2
           (Some (os_path_join tmp_dir [''sandbox''])) (os_path_join tmp_dir [''raw'']))"

section \<open>Properties\<close>

subsection \<open>The registry\<close>

lemma find_plugin_at:
  "i < length PLUGINS \<Longrightarrow> startswith path (fst (PLUGINS ! i)) \<Longrightarrow>
   (\<forall>j<i. \<not> startswith path (fst (PLUGINS ! j))) \<Longrightarrow>
   find_plugin PLUGINS path = Inr (snd (PLUGINS ! i))"
proof (induction PLUGINS arbitrary: i)
  case Nil
  then show ?case by simp
next
  case (Cons e rest)
  obtain k p where e: "e = (k, p)" by (cases e)
  show ?case
  proof (cases i)
    case 0
    with Cons.prems e show ?thesis by simp
  next
    case (Suc i')
    from Cons.prems(3) Suc have "\<not> startswith path (fst ((e # rest) ! 0))" by blast
    then have nk: "\<not> startswith path k" using e by simp
    have "\<forall>j<i'. \<not> startswith path (fst (rest ! j))"
    proof (intro allI impI)
      fix j assume "j < i'"
      then have "Suc j < i" using Suc by simp
      with Cons.prems(3) have "\<not> startswith path (fst ((e # rest) ! Suc j))" by blast
      then show "\<not> startswith path (fst (rest ! j))" by simp
    qed
    with Cons.IH[of i'] Cons.prems Suc have "find_plugin rest path = Inr (snd (rest ! i'))" by simp
    with nk e Suc show ?thesis by simp
  qed
qed

lemma find_plugin_none:
  "(\<forall>j<length PLUGINS. \<not> startswith path (fst (PLUGINS ! j))) \<Longrightarrow>
   find_plugin PLUGINS path = Inl (TypeError (''No plugin found for matching protocol of path '' @ path))"
proof (induction PLUGINS)
  case Nil
  then show ?case by simp
next
  case (Cons e rest)
  obtain k p where e: "e = (k, p)" by (cases e)
  from Cons.prems have "\<not> startswith path (fst ((e # rest) ! 0))" by blast
  then have nk: "\<not> startswith path k" using e by simp
  have "\<forall>j<length rest. \<not> startswith path (fst (rest ! j))"
  proof (intro allI impI)
    fix j assume "j < length rest"
    then have "Suc j < length (e # rest)" by simp
    with Cons.prems have "\<not> startswith path (fst ((e # rest) ! Suc j))" by blast
    then show "\<not> startswith path (fst (rest ! j))" by simp
  qed
  with Cons.IH nk e show ?case by simp
qed

lemma dict_set_new: "map_of d k = None \<Longrightarrow> dict_set k v d = d @ [(k, v)]"
  by (induction d) (auto split: if_splits)

lemma dict_set_keys_present: "map_of d k \<noteq> None \<Longrightarrow> map fst (dict_set k v d) = map fst d"
  by (induction d) (auto split: if_splits)

lemma map_of_dict_set: "map_of (dict_set k v d) k' = (if k' = k then Some v else map_of d k')"
  by (induction d) auto

lemma startswith_self: "startswith s s"
  by (simp add: startswith_def)

text \<open>
  A key that no key before it in the dict is a prefix of resolves to its own binding.
\<close>

lemma find_plugin_own_binding:
  "map_of PLUGINS k = Some v \<Longrightarrow>
   (\<forall>e\<in>set (takeWhile (\<lambda>e. fst e \<noteq> k) PLUGINS). \<not> startswith k (fst e)) \<Longrightarrow>
   find_plugin PLUGINS k = Inr v"
proof (induction PLUGINS)
  case Nil
  then show ?case by simp
next
  case (Cons e rest)
  obtain k' p where e: "e = (k', p)" by (cases e)
  show ?case
  proof (cases "k' = k")
    case True
    with Cons.prems(1) e show ?thesis by (simp add: startswith_self)
  next
    case False
    with Cons.prems e have "\<not> startswith k k'" and "map_of rest k = Some v"
      and "\<forall>e\<in>set (takeWhile (\<lambda>e. fst e \<noteq> k) rest). \<not> startswith k (fst e)"
      by auto
    with Cons.IH e show ?thesis by simp
  qed
qed

lemma takeWhile_dict_set:
  "takeWhile (\<lambda>e. fst e \<noteq> k) (dict_set k v d) = takeWhile (\<lambda>e. fst e \<noteq> k) d"
  by (induction d) auto

lemma module_PLUGINS_eq:
  "module_PLUGINS os = [(''file://'', DiskPersistence os 0), (''/'', DiskPersistence os 1)]"
  by (simp add: module_PLUGINS_def register_plugin_def)

lemma sublist_mid: "sublist x (a @ x @ b)"
  by (auto simp: sublist_def)

text \<open>
  Claim C1. \<open>find_plugin\<close> goes through the registered prefixes in the order of
  their registration and returns the backend bound to the first one that the path starts
  with: the entry at position \<open>i\<close> is returned when the path starts with its prefix
  and with none of the prefixes before it. When the path starts with no registered prefix
  the call raises (a \<^verbatim>\<open>TypeError\<close>, the spec's PluginNotFound). The order of the entries is the
  order of registration: registering a new prefix appends it, registering a present one keeps
  the order of the prefixes.
\<close>

theorem find_plugin_first_match:
  "(i < length PLUGINS \<and> startswith path (fst (PLUGINS ! i))
      \<and> (\<forall>j<i. \<not> startswith path (fst (PLUGINS ! j)))
     \<longrightarrow> find_plugin PLUGINS path = Inr (snd (PLUGINS ! i)))
   \<and> ((\<forall>j<length PLUGINS. \<not> startswith path (fst (PLUGINS ! j)))
     \<longrightarrow> find_plugin PLUGINS path
         = Inl (TypeError (''No plugin found for matching protocol of path '' @ path)))
   \<and> (map_of PLUGINS protocol = None
     \<longrightarrow> register_plugin protocol plugin force PLUGINS = (Inr (), PLUGINS @ [(protocol, plugin)]))
   \<and> (map_of PLUGINS protocol \<noteq> None
     \<longrightarrow> map fst (snd (register_plugin protocol plugin force PLUGINS)) = map fst PLUGINS)"
proof (intro conjI impI)
  assume "i < length PLUGINS \<and> startswith path (fst (PLUGINS ! i))
      \<and> (\<forall>j<i. \<not> startswith path (fst (PLUGINS ! j)))"
  then show "find_plugin PLUGINS path = Inr (snd (PLUGINS ! i))"
    using find_plugin_at by blast
next
  assume "\<forall>j<length PLUGINS. \<not> startswith path (fst (PLUGINS ! j))"
  then show "find_plugin PLUGINS path
         = Inl (TypeError (''No plugin found for matching protocol of path '' @ path))"
    by (rule find_plugin_none)
next
  assume "map_of PLUGINS protocol = None"
  then show "register_plugin protocol plugin force PLUGINS = (Inr (), PLUGINS @ [(protocol, plugin)])"
    by (simp add: register_plugin_def dict_set_new)
next
  assume "map_of PLUGINS protocol \<noteq> None"
  then show "map fst (snd (register_plugin protocol plugin force PLUGINS)) = map fst PLUGINS"
    by (auto simp: register_plugin_def dict_set_keys_present)
qed

text \<open>
  The registry of the module with a backend \<^verbatim>\<open>mem\<close> registered for \<^verbatim>\<open>mem://\<close> after
  \<^verbatim>\<open>file://\<close> and \<^verbatim>\<open>/\<close>: \<^verbatim>\<open>mem://bucket/key\<close> resolves to the mem backend,
  \<^verbatim>\<open>/tmp/x\<close> to the disk backend registered for \<^verbatim>\<open>/\<close>, and \<^verbatim>\<open>s3://bucket/key\<close> to none.
\<close>

theorem find_plugin_first_match_witness:
  "register_plugin ''mem://'' (DataPersistence_init ''mem'' 3) False (module_PLUGINS tree_os)
     = (Inr (), [(''file://'', DiskPersistence tree_os 0), (''/'', DiskPersistence tree_os 1),
                 (''mem://'', DataPersistence_init ''mem'' 3)])
   \<and> find_plugin [(''file://'', DiskPersistence tree_os 0), (''/'', DiskPersistence tree_os 1),
                  (''mem://'', DataPersistence_init ''mem'' 3)] ''mem://bucket/key''
     = Inr (DataPersistence_init ''mem'' 3)
   \<and> find_plugin [(''file://'', DiskPersistence tree_os 0), (''/'', DiskPersistence tree_os 1),
                  (''mem://'', DataPersistence_init ''mem'' 3)] ''/tmp/x''
     = Inr (DiskPersistence tree_os 1)
   \<and> find_plugin [(''file://'', DiskPersistence tree_os 0), (''/'', DiskPersistence tree_os 1),
                  (''mem://'', DataPersistence_init ''mem'' 3)] ''s3://bucket/key''
     = Inl (TypeError ''No plugin found for matching protocol of path s3://bucket/key'')
   \<and> map fst (snd (register_plugin ''/'' (DataPersistence_init ''mem'' 3) True (module_PLUGINS tree_os)))
     = [''file://'', ''/'']"
proof -
  let ?mem = "DataPersistence_init ''mem'' 3 :: node DataPersistence"
  let ?P = "[(''file://'', DiskPersistence tree_os 0), (''/'', DiskPersistence tree_os 1),
             (''mem://'', ?mem)]"
  have less3: "\<And>j P. (\<forall>j<(3::nat). P j) = (P 0 \<and> P (Suc 0) \<and> P (Suc (Suc 0)))"
    by (auto simp: numeral_3_eq_3 less_Suc_eq)
  have less2: "\<And>j P. (\<forall>j<(2::nat). P j) = (P 0 \<and> P (Suc 0))"
    by (auto simp: numeral_2_eq_2 less_Suc_eq)
  have less1: "\<And>j P. (\<forall>j<(1::nat). P j) = P 0"
    by simp
  have a: "register_plugin ''mem://'' ?mem False (module_PLUGINS tree_os) = (Inr (), ?P)"
    using find_plugin_first_match [of 0 "module_PLUGINS tree_os" "[]" "''mem://''" ?mem False]
    by (simp add: module_PLUGINS_eq)
  have b: "find_plugin ?P ''mem://bucket/key'' = Inr ?mem"
    using find_plugin_first_match [of 2 ?P "''mem://bucket/key''" "[]" ?mem False]
    by (simp add: less2 startswith_def)
  have c: "find_plugin ?P ''/tmp/x'' = Inr (DiskPersistence tree_os 1)"
    using find_plugin_first_match [of 1 ?P "''/tmp/x''" "[]" ?mem False]
    by (simp add: less1 startswith_def)
  have d: "find_plugin ?P ''s3://bucket/key''
      = Inl (TypeError ''No plugin found for matching protocol of path s3://bucket/key'')"
    using find_plugin_first_match [of 0 ?P "''s3://bucket/key''" "[]" ?mem False]
    by (simp add: less3 startswith_def)
  have e: "map fst (snd (register_plugin ''/'' ?mem True (module_PLUGINS tree_os))) = [''file://'', ''/'']"
    using find_plugin_first_match [of 0 "module_PLUGINS tree_os" "[]" "''/''" ?mem True]
    by (simp add: module_PLUGINS_eq)
  from a b c d e show ?thesis by blast
qed

text \<open>
  Claim C6. When the registry binds \<open>protocol\<close> to \<open>plugin\<close>, or to any backend
  that \<^verbatim>\<open>==\<close> holds of with \<open>plugin\<close>, registering \<open>plugin\<close> for
  \<open>protocol\<close> again, forced or not, raises nothing and leaves the registry as it is.
  (Neither class defines \<^verbatim>\<open>__eq__\<close>: the backends that are equal are the same object.)
\<close>

theorem register_plugin_idempotent:
  "(map_of PLUGINS protocol = Some plugin
     \<longrightarrow> register_plugin protocol plugin force PLUGINS = (Inr (), PLUGINS))
   \<and> (map_of PLUGINS protocol = Some p \<and> py_eq p plugin
     \<longrightarrow> register_plugin protocol plugin force PLUGINS = (Inr (), PLUGINS))"
  by (simp add: register_plugin_def py_eq_def)

theorem register_plugin_idempotent_witness:
  "map_of (module_PLUGINS tree_os) ''file://'' = Some (DiskPersistence tree_os 0)
   \<and> py_eq (DiskPersistence tree_os 0) (DiskPersistence tree_os 0)
   \<and> register_plugin ''file://'' (DiskPersistence tree_os 0) False (module_PLUGINS tree_os)
     = (Inr (), module_PLUGINS tree_os)
   \<and> register_plugin ''file://'' (DiskPersistence tree_os 0) True (module_PLUGINS tree_os)
     = (Inr (), module_PLUGINS tree_os)"
proof -
  have h: "map_of (module_PLUGINS tree_os) ''file://'' = Some (DiskPersistence tree_os 0)"
    by (simp add: module_PLUGINS_eq)
  have e: "py_eq (DiskPersistence tree_os 0) (DiskPersistence tree_os 0)"
    by (simp add: py_eq_def)
  from h e
    register_plugin_idempotent [of "module_PLUGINS tree_os" "''file://''" "DiskPersistence tree_os 0"
      False "DiskPersistence tree_os 0"]
    register_plugin_idempotent [of "module_PLUGINS tree_os" "''file://''" "DiskPersistence tree_os 0"
      True "DiskPersistence tree_os 0"]
  show ?thesis by blast
qed

lemma dict_set_nth:
  "i < length d \<Longrightarrow> fst (d ! i) \<noteq> k \<Longrightarrow> dict_set k v d ! i = d ! i"
proof (induction d arbitrary: i)
  case Nil
  then show ?case by simp
next
  case (Cons e d)
  then show ?case by (cases i) auto
qed

text \<open>
  An entry under another key that is the first whose key the path starts with is what the
  path resolves to, whether or not the binding of \<open>k\<close> is replaced.
\<close>

lemma find_plugin_earlier_binding:
  assumes "map_of PLUGINS k \<noteq> None" and "i < length PLUGINS" and "fst (PLUGINS ! i) \<noteq> k"
    and "startswith path (fst (PLUGINS ! i))"
    and "\<forall>j<i. \<not> startswith path (fst (PLUGINS ! j))"
  shows "find_plugin PLUGINS path = Inr (snd (PLUGINS ! i))"
    and "find_plugin (dict_set k v PLUGINS) path = Inr (snd (PLUGINS ! i))"
proof -
  show "find_plugin PLUGINS path = Inr (snd (PLUGINS ! i))"
    using assms(2,4,5) by (rule find_plugin_at)
  let ?P = "dict_set k v PLUGINS"
  have keys: "map fst ?P = map fst PLUGINS"
    using assms(1) by (rule dict_set_keys_present)
  then have len: "length ?P = length PLUGINS"
    by (metis length_map)
  have key: "fst (?P ! j) = fst (PLUGINS ! j)" if "j < length PLUGINS" for j
    using that keys len by (metis nth_map)
  have i: "i < length ?P" using assms(2) len by simp
  have m: "startswith path (fst (?P ! i))" using assms(2,4) key by simp
  have n: "\<forall>j<i. \<not> startswith path (fst (?P ! j))"
    using assms(2,5) key by simp
  have "find_plugin ?P path = Inr (snd (?P ! i))"
    using i m n by (rule find_plugin_at)
  then show "find_plugin ?P path = Inr (snd (PLUGINS ! i))"
    using assms(2,3) by (simp add: dict_set_nth)
qed

text \<open>
  Claim C2, as the code has it. When the registry binds \<open>protocol\<close> to a backend
  \<open>A\<close> and \<open>B\<close> is another object: without \<open>force\<close> the registration raises
  (a \<^verbatim>\<open>TypeError\<close>, the spec's PluginConflict) with a message that names both backends and the
  protocol, and the registry is unchanged; with \<open>force\<close> it succeeds, the registry
  binds \<open>protocol\<close> to \<open>B\<close> and keeps the order of its prefixes. Resolving
  \<open>protocol\<close> as a path returns its binding (\<open>A\<close> before, \<open>B\<close> after) when
  \<open>protocol\<close> starts with none of the prefixes registered before it. Otherwise, before
  and after, it returns the backend of the first prefix that \<open>protocol\<close> starts with: the
  entry at a position \<open>i\<close> under another prefix, when \<open>protocol\<close> starts with that
  prefix and with none before it.
\<close>

theorem register_plugin_conflict:
  assumes "map_of PLUGINS protocol = Some A" and "\<not> py_eq A B"
  shows "register_plugin protocol B False PLUGINS
           = (Inl (TypeError (conflict_message (dp_name B) protocol (dp_name A))), PLUGINS)
         \<and> sublist (dp_name A) (conflict_message (dp_name B) protocol (dp_name A))
         \<and> sublist (dp_name B) (conflict_message (dp_name B) protocol (dp_name A))
         \<and> sublist protocol (conflict_message (dp_name B) protocol (dp_name A))
         \<and> register_plugin protocol B True PLUGINS = (Inr (), dict_set protocol B PLUGINS)
         \<and> map_of (dict_set protocol B PLUGINS) protocol = Some B
         \<and> map fst (dict_set protocol B PLUGINS) = map fst PLUGINS
         \<and> ((\<forall>e\<in>set (takeWhile (\<lambda>e. fst e \<noteq> protocol) PLUGINS). \<not> startswith protocol (fst e))
              \<longrightarrow> find_plugin PLUGINS protocol = Inr A
                  \<and> find_plugin (dict_set protocol B PLUGINS) protocol = Inr B)
         \<and> (i < length PLUGINS \<and> fst (PLUGINS ! i) \<noteq> protocol
               \<and> startswith protocol (fst (PLUGINS ! i))
               \<and> (\<forall>j<i. \<not> startswith protocol (fst (PLUGINS ! j)))
              \<longrightarrow> find_plugin PLUGINS protocol = Inr (snd (PLUGINS ! i))
                  \<and> find_plugin (dict_set protocol B PLUGINS) protocol = Inr (snd (PLUGINS ! i)))"
proof -
  have 1: "register_plugin protocol B False PLUGINS
           = (Inl (TypeError (conflict_message (dp_name B) protocol (dp_name A))), PLUGINS)"
    using assms by (simp add: register_plugin_def)
  have 2: "sublist (dp_name A) (conflict_message (dp_name B) protocol (dp_name A))"
    unfolding conflict_message_def
    by (metis append.assoc sublist_appendI)
  have 3: "sublist (dp_name B) (conflict_message (dp_name B) protocol (dp_name A))"
    unfolding conflict_message_def by (rule sublist_mid)
  have 4: "sublist protocol (conflict_message (dp_name B) protocol (dp_name A))"
    unfolding conflict_message_def
    by (metis append.assoc sublist_appendI)
  have 5: "register_plugin protocol B True PLUGINS = (Inr (), dict_set protocol B PLUGINS)"
    using assms by (simp add: register_plugin_def)
  have 6: "map_of (dict_set protocol B PLUGINS) protocol = Some B"
    by (simp add: map_of_dict_set)
  have 7: "map fst (dict_set protocol B PLUGINS) = map fst PLUGINS"
    using assms(1) by (simp add: dict_set_keys_present)
  have 8: "find_plugin PLUGINS protocol = Inr A
           \<and> find_plugin (dict_set protocol B PLUGINS) protocol = Inr B"
    if h: "\<forall>e\<in>set (takeWhile (\<lambda>e. fst e \<noteq> protocol) PLUGINS). \<not> startswith protocol (fst e)"
  proof
    show "find_plugin PLUGINS protocol = Inr A"
      using assms(1) h by (rule find_plugin_own_binding)
    show "find_plugin (dict_set protocol B PLUGINS) protocol = Inr B"
      using 6 h by (intro find_plugin_own_binding) (simp_all add: takeWhile_dict_set)
  qed
  have 9: "find_plugin PLUGINS protocol = Inr (snd (PLUGINS ! i))
           \<and> find_plugin (dict_set protocol B PLUGINS) protocol = Inr (snd (PLUGINS ! i))"
    if h: "i < length PLUGINS \<and> fst (PLUGINS ! i) \<noteq> protocol
               \<and> startswith protocol (fst (PLUGINS ! i))
               \<and> (\<forall>j<i. \<not> startswith protocol (fst (PLUGINS ! j)))"
  proof -
    have b: "map_of PLUGINS protocol \<noteq> None" using assms(1) by simp
    from h have h1: "i < length PLUGINS" and h2: "fst (PLUGINS ! i) \<noteq> protocol"
      and h3: "startswith protocol (fst (PLUGINS ! i))"
      and h4: "\<forall>j<i. \<not> startswith protocol (fst (PLUGINS ! j))"
      by blast+
    from find_plugin_earlier_binding [OF b h1 h2 h3 h4] show ?thesis by blast
  qed
  from 1 2 3 4 5 6 7 8 9 show ?thesis by blast
qed

text \<open>
  In the registry of the module, \<^verbatim>\<open>/\<close> is bound to a disk backend (named \<^verbatim>\<open>local\<close>),
  after \<^verbatim>\<open>file://\<close>, which \<^verbatim>\<open>/\<close> does not start with; registering a backend named
  \<^verbatim>\<open>mem\<close> for it is refused without \<open>force\<close>, and with \<open>force\<close> \<^verbatim>\<open>/\<close> resolves
  to the new backend. With \<^verbatim>\<open>/data\<close> bound to a backend \<^verbatim>\<open>a\<close> after them, \<^verbatim>\<open>/data\<close>
  starts with the earlier prefix \<^verbatim>\<open>/\<close> at position 1 and not with \<^verbatim>\<open>file://\<close> at
  position 0: with or without the forced registration of \<^verbatim>\<open>mem\<close> for \<^verbatim>\<open>/data\<close> it
  resolves to the disk backend of \<^verbatim>\<open>/\<close>.
\<close>

theorem register_plugin_conflict_witness:
  "map_of (module_PLUGINS tree_os) ''/'' = Some (DiskPersistence tree_os 1)
   \<and> \<not> py_eq (DiskPersistence tree_os 1) (DataPersistence_init ''mem'' 3)
   \<and> takeWhile (\<lambda>e. fst e \<noteq> ''/'') (module_PLUGINS tree_os) = [(''file://'', DiskPersistence tree_os 0)]
   \<and> \<not> startswith ''/'' ''file://''
   \<and> register_plugin ''/'' (DataPersistence_init ''mem'' 3) False (module_PLUGINS tree_os)
     = (Inl (TypeError (conflict_message ''mem'' ''/'' ''local'')), module_PLUGINS tree_os)
   \<and> register_plugin ''/'' (DataPersistence_init ''mem'' 3) True (module_PLUGINS tree_os)
     = (Inr (), [(''file://'', DiskPersistence tree_os 0), (''/'', DataPersistence_init ''mem'' 3)])
   \<and> find_plugin (module_PLUGINS tree_os) ''/'' = Inr (DiskPersistence tree_os 1)
   \<and> find_plugin [(''file://'', DiskPersistence tree_os 0), (''/'', DataPersistence_init ''mem'' 3)] ''/''
     = Inr (DataPersistence_init ''mem'' 3)
   \<and> map_of [(''file://'', DiskPersistence tree_os 0), (''/'', DiskPersistence tree_os 1),
              (''/data'', DataPersistence_init ''a'' 4)] ''/data''
     = Some (DataPersistence_init ''a'' 4)
   \<and> \<not> py_eq (DataPersistence_init ''a'' 4 :: node DataPersistence) (DataPersistence_init ''mem'' 3)
   \<and> startswith ''/data'' ''/'' \<and> \<not> startswith ''/data'' ''file://''
   \<and> register_plugin ''/data'' (DataPersistence_init ''mem'' 3) True
        [(''file://'', DiskPersistence tree_os 0), (''/'', DiskPersistence tree_os 1),
         (''/data'', DataPersistence_init ''a'' 4)]
     = (Inr (), [(''file://'', DiskPersistence tree_os 0), (''/'', DiskPersistence tree_os 1),
                 (''/data'', DataPersistence_init ''mem'' 3)])
   \<and> find_plugin [(''file://'', DiskPersistence tree_os 0), (''/'', DiskPersistence tree_os 1),
                  (''/data'', DataPersistence_init ''a'' 4)] ''/data''
     = Inr (DiskPersistence tree_os 1)
   \<and> find_plugin [(''file://'', DiskPersistence tree_os 0), (''/'', DiskPersistence tree_os 1),
                  (''/data'', DataPersistence_init ''mem'' 3)] ''/data''
     = Inr (DiskPersistence tree_os 1)"
proof -
  let ?A = "DiskPersistence tree_os 1"
  let ?B = "DataPersistence_init ''mem'' 3 :: node DataPersistence"
  let ?C = "DataPersistence_init ''a'' 4 :: node DataPersistence"
  let ?Q = "[(''file://'', DiskPersistence tree_os 0), (''/'', ?A), (''/data'', ?C)]"
  have h1: "map_of (module_PLUGINS tree_os) ''/'' = Some ?A"
    by (simp add: module_PLUGINS_eq)
  have h2: "\<not> py_eq ?A ?B"
    by (simp add: py_eq_def DiskPersistence_def DataPersistence_init_def)
  have n: "dp_name ?A = ''local''" "dp_name ?B = ''mem''"
    by (simp_all add: DiskPersistence_def DataPersistence_init_def)
  have d: "dict_set ''/'' ?B (module_PLUGINS tree_os)
           = [(''file://'', DiskPersistence tree_os 0), (''/'', ?B)]"
    by (simp add: module_PLUGINS_eq)
  have t: "takeWhile (\<lambda>e. fst e \<noteq> ''/'') (module_PLUGINS tree_os) = [(''file://'', DiskPersistence tree_os 0)]"
    by (simp add: module_PLUGINS_eq)
  have s: "\<not> startswith ''/'' ''file://''"
    by (simp add: startswith_def)
  have h3: "\<forall>e\<in>set (takeWhile (\<lambda>e. fst e \<noteq> ''/'') (module_PLUGINS tree_os)).
              \<not> startswith ''/'' (fst e)"
    using s by (simp add: t)
  have first: "register_plugin ''/'' ?B False (module_PLUGINS tree_os)
       = (Inl (TypeError (conflict_message ''mem'' ''/'' ''local'')), module_PLUGINS tree_os)
     \<and> register_plugin ''/'' ?B True (module_PLUGINS tree_os)
       = (Inr (), [(''file://'', DiskPersistence tree_os 0), (''/'', ?B)])
     \<and> find_plugin (module_PLUGINS tree_os) ''/'' = Inr ?A
     \<and> find_plugin [(''file://'', DiskPersistence tree_os 0), (''/'', ?B)] ''/'' = Inr ?B"
    using register_plugin_conflict [OF h1 h2, of 0] h3 unfolding n d by blast
  have g1: "map_of ?Q ''/data'' = Some ?C"
    by simp
  have g2: "\<not> py_eq ?C ?B"
    by (simp add: py_eq_def DataPersistence_init_def)
  have s1: "startswith ''/data'' ''/''" and s0: "\<not> startswith ''/data'' ''file://''"
    by (simp_all add: startswith_def)
  have g3: "Suc 0 < length ?Q \<and> fst (?Q ! Suc 0) \<noteq> ''/data''
            \<and> startswith ''/data'' (fst (?Q ! Suc 0))
            \<and> (\<forall>j<Suc 0. \<not> startswith ''/data'' (fst (?Q ! j)))"
    using s1 s0 by simp
  have e: "dict_set ''/data'' ?B ?Q
           = [(''file://'', DiskPersistence tree_os 0), (''/'', ?A), (''/data'', ?B)]"
    by simp
  have second: "register_plugin ''/data'' ?B True ?Q
       = (Inr (), [(''file://'', DiskPersistence tree_os 0), (''/'', ?A), (''/data'', ?B)])
     \<and> find_plugin ?Q ''/data'' = Inr ?A
     \<and> find_plugin [(''file://'', DiskPersistence tree_os 0), (''/'', ?A), (''/data'', ?B)] ''/data''
       = Inr ?A"
    using register_plugin_conflict [OF g1 g2, of "Suc 0"] g3 unfolding e by simp
  from h1 h2 t s first g1 g2 s1 s0 second show ?thesis by blast
qed

text \<open>
  Claim C2 as stated fails where a prefix registered earlier is itself a prefix of the
  protocol. With \<^verbatim>\<open>/data\<close> bound to \<open>A\<close> after the module's \<^verbatim>\<open>file://\<close> and
  \<^verbatim>\<open>/\<close>, the forced registration of \<open>B\<close> for \<^verbatim>\<open>/data\<close> succeeds, and
  \<^verbatim>\<open>/data\<close> resolves, before and after, to the disk backend of \<^verbatim>\<open>/\<close>: neither to
  \<open>A\<close> nor to \<open>B\<close>.
\<close>

theorem register_plugin_force_counterexample:
  "register_plugin ''/data'' (DataPersistence_init ''a'' 3) False (module_PLUGINS tree_os)
     = (Inr (), [(''file://'', DiskPersistence tree_os 0), (''/'', DiskPersistence tree_os 1),
                 (''/data'', DataPersistence_init ''a'' 3)])
   \<and> map_of [(''file://'', DiskPersistence tree_os 0), (''/'', DiskPersistence tree_os 1),
              (''/data'', DataPersistence_init ''a'' 3)] ''/data''
     = Some (DataPersistence_init ''a'' 3)
   \<and> \<not> py_eq (DataPersistence_init ''a'' 3 :: node DataPersistence) (DataPersistence_init ''b'' 4)
   \<and> find_plugin [(''file://'', DiskPersistence tree_os 0), (''/'', DiskPersistence tree_os 1),
                  (''/data'', DataPersistence_init ''a'' 3)] ''/data''
     = Inr (DiskPersistence tree_os 1)
   \<and> register_plugin ''/data'' (DataPersistence_init ''b'' 4) True
        [(''file://'', DiskPersistence tree_os 0), (''/'', DiskPersistence tree_os 1),
         (''/data'', DataPersistence_init ''a'' 3)]
     = (Inr (), [(''file://'', DiskPersistence tree_os 0), (''/'', DiskPersistence tree_os 1),
                 (''/data'', DataPersistence_init ''b'' 4)])
   \<and> find_plugin [(''file://'', DiskPersistence tree_os 0), (''/'', DiskPersistence tree_os 1),
                  (''/data'', DataPersistence_init ''b'' 4)] ''/data''
     = Inr (DiskPersistence tree_os 1)
   \<and> DiskPersistence tree_os 1 \<noteq> DataPersistence_init ''a'' 3
   \<and> DiskPersistence tree_os 1 \<noteq> DataPersistence_init ''b'' 4"
proof -
  have ne: "DiskPersistence tree_os 1 \<noteq> DataPersistence_init nm (Suc (Suc (Suc k)))" for nm k
  proof
    assume "DiskPersistence tree_os 1 = DataPersistence_init nm (Suc (Suc (Suc k)))"
    then have "dp_oid (DiskPersistence tree_os 1)
               = dp_oid (DataPersistence_init nm (Suc (Suc (Suc k))) :: node DataPersistence)"
      by simp
    then show False by (simp add: DiskPersistence_def DataPersistence_init_def)
  qed
  have ne3: "DiskPersistence tree_os 1 \<noteq> DataPersistence_init ''a'' 3"
    using ne [of "''a''" 0] by (simp add: numeral_3_eq_3)
  have ne4: "DiskPersistence tree_os 1 \<noteq> DataPersistence_init ''b'' 4"
    using ne [of "''b''" 1] by (simp add: eval_nat_numeral)
  have oid: "dp_oid (DataPersistence_init nm i) = i" for nm i
    by (simp add: DataPersistence_init_def)
  show ?thesis
    using ne3 ne4
    by (simp add: module_PLUGINS_eq register_plugin_def py_eq_def oid startswith_def)
qed

subsection \<open>The storage client\<close>

lemma sublist_in_append: "sublist x (a @ x @ b)" "sublist x (a @ x)" "sublist x (x @ b)"
  by (auto simp: sublist_def intro: exI [of _ "[]"])

lemma get_data_message_embeds:
  "sublist remote_path (get_data_message remote_path local_path is_multipart error_string)"
  "sublist local_path (get_data_message remote_path local_path is_multipart error_string)"
  "sublist (str_bool is_multipart) (get_data_message remote_path local_path is_multipart error_string)"
  "sublist error_string (get_data_message remote_path local_path is_multipart error_string)"
proof -
  let ?m = "get_data_message remote_path local_path is_multipart error_string"
  have "?m = ''Failed to get data from '' @ remote_path @ ('' to '' @ local_path
     @ '' (recursive='' @ str_bool is_multipart @ '').'' @ [CHR 0x0A, CHR 0x0A]
     @ ''Original exception: '' @ error_string)"
    by (simp add: get_data_message_def)
  then show "sublist remote_path ?m" by (simp only: sublist_in_append)
  have "?m = (''Failed to get data from '' @ remote_path @ '' to '') @ local_path
     @ ('' (recursive='' @ str_bool is_multipart @ '').'' @ [CHR 0x0A, CHR 0x0A]
     @ ''Original exception: '' @ error_string)"
    by (simp add: get_data_message_def)
  then show "sublist local_path ?m" by (simp only: sublist_in_append)
  have "?m = (''Failed to get data from '' @ remote_path @ '' to '' @ local_path
     @ '' (recursive='') @ str_bool is_multipart @ ('').'' @ [CHR 0x0A, CHR 0x0A]
     @ ''Original exception: '' @ error_string)"
    by (simp add: get_data_message_def)
  then show "sublist (str_bool is_multipart) ?m" by (simp only: sublist_in_append)
  have "?m = (''Failed to get data from '' @ remote_path @ '' to '' @ local_path
     @ '' (recursive='' @ str_bool is_multipart @ '').'' @ [CHR 0x0A, CHR 0x0A]
     @ ''Original exception: '') @ error_string"
    by (simp add: get_data_message_def)
  then show "sublist error_string ?m" by (simp only: sublist_in_append)
qed

lemma put_data_message_embeds:
  "sublist remote_path (put_data_message local_path remote_path is_multipart error_string)"
  "sublist local_path (put_data_message local_path remote_path is_multipart error_string)"
  "sublist (str_bool is_multipart) (put_data_message local_path remote_path is_multipart error_string)"
  "sublist error_string (put_data_message local_path remote_path is_multipart error_string)"
proof -
  let ?m = "put_data_message local_path remote_path is_multipart error_string"
  have "?m = (''Failed to put data from '' @ local_path @ '' to '') @ remote_path
     @ ('' (recursive='' @ str_bool is_multipart @ '').'' @ [CHR 0x0A, CHR 0x0A]
     @ ''Original exception: '' @ error_string)"
    by (simp add: put_data_message_def)
  then show "sublist remote_path ?m" by (simp only: sublist_in_append)
  have "?m = ''Failed to put data from '' @ local_path @ ('' to '' @ remote_path
     @ '' (recursive='' @ str_bool is_multipart @ '').'' @ [CHR 0x0A, CHR 0x0A]
     @ ''Original exception: '' @ error_string)"
    by (simp add: put_data_message_def)
  then show "sublist local_path ?m" by (simp only: sublist_in_append)
  have "?m = (''Failed to put data from '' @ local_path @ '' to '' @ remote_path
     @ '' (recursive='') @ str_bool is_multipart @ ('').'' @ [CHR 0x0A, CHR 0x0A]
     @ ''Original exception: '' @ error_string)"
    by (simp add: put_data_message_def)
  then show "sublist (str_bool is_multipart) ?m" by (simp only: sublist_in_append)
  have "?m = (''Failed to put data from '' @ local_path @ '' to '' @ remote_path
     @ '' (recursive='' @ str_bool is_multipart @ '').'' @ [CHR 0x0A, CHR 0x0A]
     @ ''Original exception: '') @ error_string"
    by (simp add: put_data_message_def)
  then show "sublist error_string ?m" by (simp only: sublist_in_append)
qed

text \<open>What \<open>get_data\<close> and \<open>put_data\<close> make of the outcome of the transfer they wrap.\<close>

lemma get_data_outcome:
  "get_data PLUGINS remote_path local_path is_multipart w =
     (case (if is_multipart then FileAccessProvider_download_directory PLUGINS remote_path local_path w
            else FileAccessProvider_download PLUGINS remote_path local_path w) of
        (Inl ex, w') \<Rightarrow>
          (Inl (FlyteAssertion (get_data_message remote_path local_path is_multipart (str_exc ex))), w')
      | (Inr u, w') \<Rightarrow> (Inr (), w'))"
  by (simp add: get_data_def PerformanceTimer_def)

lemma put_data_outcome:
  "put_data self local_path remote_path is_multipart w =
     (case (if is_multipart then dp_upload_directory (fap_default_remote self) local_path remote_path w
            else dp_upload (fap_default_remote self) local_path remote_path w) of
        (Inl ex, w') \<Rightarrow>
          (Inl (FlyteAssertion (put_data_message local_path remote_path is_multipart (str_exc ex))), w')
      | (Inr u, w') \<Rightarrow> (Inr (), w'))"
  by (simp add: put_data_def PerformanceTimer_def)

text \<open>
  Claim C4. Whatever exception the transfer under \<open>get_data\<close> raises (the backend's
  download, or the resolution of the remote path), and whatever exception the upload under
  \<open>put_data\<close> raises, the operation raises a \<^verbatim>\<open>FlyteAssertion\<close> (the spec's TransferFailure)
  whose message contains the remote path, the local path, the flag and the message of the
  exception; every exception that leaves \<open>get_data\<close> or \<open>put_data\<close> is such a
  \<^verbatim>\<open>FlyteAssertion\<close>. The values of \<open>exc\<close> are the subclasses of \<^verbatim>\<open>Exception\<close>.
\<close>

theorem transfer_failure_wrapped:
  "(find_plugin PLUGINS remote_path = Inr p
      \<and> (if is_multipart then dp_download_directory p remote_path local_path w
          else dp_download p remote_path local_path w) = (Inl ex, w')
     \<longrightarrow> get_data PLUGINS remote_path local_path is_multipart w
         = (Inl (FlyteAssertion (get_data_message remote_path local_path is_multipart (str_exc ex))), w'))
   \<and> (find_plugin PLUGINS remote_path = Inl ex
     \<longrightarrow> get_data PLUGINS remote_path local_path is_multipart w
         = (Inl (FlyteAssertion (get_data_message remote_path local_path is_multipart (str_exc ex))), w))
   \<and> ((if is_multipart then dp_upload_directory (fap_default_remote self) local_path remote_path w
        else dp_upload (fap_default_remote self) local_path remote_path w) = (Inl ex, w')
     \<longrightarrow> put_data self local_path remote_path is_multipart w
         = (Inl (FlyteAssertion (put_data_message local_path remote_path is_multipart (str_exc ex))), w'))
   \<and> (fst (get_data PLUGINS remote_path local_path is_multipart w) = Inl e
     \<longrightarrow> (\<exists>s. e = FlyteAssertion (get_data_message remote_path local_path is_multipart s)))
   \<and> (fst (put_data self local_path remote_path is_multipart w) = Inl e
     \<longrightarrow> (\<exists>s. e = FlyteAssertion (put_data_message local_path remote_path is_multipart s)))
   \<and> sublist remote_path (get_data_message remote_path local_path is_multipart error_string)
   \<and> sublist local_path (get_data_message remote_path local_path is_multipart error_string)
   \<and> sublist (str_bool is_multipart) (get_data_message remote_path local_path is_multipart error_string)
   \<and> sublist error_string (get_data_message remote_path local_path is_multipart error_string)
   \<and> sublist remote_path (put_data_message local_path remote_path is_multipart error_string)
   \<and> sublist local_path (put_data_message local_path remote_path is_multipart error_string)
   \<and> sublist (str_bool is_multipart) (put_data_message local_path remote_path is_multipart error_string)
   \<and> sublist error_string (put_data_message local_path remote_path is_multipart error_string)"
proof -
  have 1: "get_data PLUGINS remote_path local_path is_multipart w
         = (Inl (FlyteAssertion (get_data_message remote_path local_path is_multipart (str_exc ex))), w')"
    if "find_plugin PLUGINS remote_path = Inr p
      \<and> (if is_multipart then dp_download_directory p remote_path local_path w
          else dp_download p remote_path local_path w) = (Inl ex, w')"
    using that
    by (cases is_multipart)
       (simp_all add: get_data_outcome FileAccessProvider_download_directory_def
          FileAccessProvider_download_def)
  have 2: "get_data PLUGINS remote_path local_path is_multipart w
         = (Inl (FlyteAssertion (get_data_message remote_path local_path is_multipart (str_exc ex))), w)"
    if "find_plugin PLUGINS remote_path = Inl ex"
    using that
    by (simp add: get_data_outcome FileAccessProvider_download_directory_def
          FileAccessProvider_download_def)
  have 3: "put_data self local_path remote_path is_multipart w
         = (Inl (FlyteAssertion (put_data_message local_path remote_path is_multipart (str_exc ex))), w')"
    if "(if is_multipart then dp_upload_directory (fap_default_remote self) local_path remote_path w
        else dp_upload (fap_default_remote self) local_path remote_path w) = (Inl ex, w')"
    using that by (simp add: put_data_outcome)
  have 4: "\<exists>s. e = FlyteAssertion (get_data_message remote_path local_path is_multipart s)"
    if "fst (get_data PLUGINS remote_path local_path is_multipart w) = Inl e"
    using that unfolding get_data_outcome
    by (auto split: prod.splits sum.splits)
  have 5: "\<exists>s. e = FlyteAssertion (put_data_message local_path remote_path is_multipart s)"
    if "fst (put_data self local_path remote_path is_multipart w) = Inl e"
    using that unfolding put_data_outcome
    by (auto split: prod.splits sum.splits)
  from 1 2 3 4 5 show ?thesis
    by (simp only: get_data_message_embeds put_data_message_embeds simp_thms) blast
qed
text \<open>
  On the empty file system, with the registry of the module: the download of the missing
  file \<^verbatim>\<open>/nosrc\<close> by the disk backend raises an \<^verbatim>\<open>OSError\<close>, and \<open>get_data\<close> raises the
  \<^verbatim>\<open>FlyteAssertion\<close> with its message; the path \<^verbatim>\<open>s3://bucket/key\<close> resolves to no backend, and
  \<open>get_data\<close> wraps that \<^verbatim>\<open>TypeError\<close> too; the upload of the missing directory by a
  client whose default remote is the disk backend is wrapped by \<open>put_data\<close>.
\<close>

theorem transfer_failure_wrapped_witness:
  "find_plugin (module_PLUGINS tree_os) ''/nosrc'' = Inr (DiskPersistence tree_os 1)
   \<and> dp_download (DiskPersistence tree_os 1) ''/nosrc'' ''/tmp/x'' (Dir [])
     = (Inl (FileNotFoundError ''/nosrc''), Dir [])
   \<and> get_data (module_PLUGINS tree_os) ''/nosrc'' ''/tmp/x'' False (Dir [])
     = (Inl (FlyteAssertion (get_data_message ''/nosrc'' ''/tmp/x'' False
              (''[Errno 2] No such file or directory: '' @ quoted ''/nosrc''))), Dir [])
   \<and> find_plugin (module_PLUGINS tree_os) ''s3://bucket/key''
     = Inl (TypeError ''No plugin found for matching protocol of path s3://bucket/key'')
   \<and> get_data (module_PLUGINS tree_os) ''s3://bucket/key'' ''/tmp/x'' True (Dir [])
     = (Inl (FlyteAssertion (get_data_message ''s3://bucket/key'' ''/tmp/x'' True
              ''No plugin found for matching protocol of path s3://bucket/key'')), Dir [])
   \<and> dp_upload_directory (DiskPersistence tree_os 1) ''/nosrc'' ''/out/x'' (Dir [])
     = (Inl (DistutilsFileError (''cannot copy tree '' @ quoted ''/nosrc'' @ '': not a directory'')), Dir [])
   \<and> put_data \<lparr> fap_local_sandbox_dir = ''/tmp/sandbox/local_flytekit'',
                 fap_local = DiskPersistence tree_os 2,
                 fap_default_remote = DiskPersistence tree_os 1,
                 fap_raw_output_prefix = ''/tmp/raw'' \<rparr> ''/nosrc'' ''/out/x'' True (Dir [])
     = (Inl (FlyteAssertion (put_data_message ''/nosrc'' ''/out/x'' True
              (''cannot copy tree '' @ quoted ''/nosrc'' @ '': not a directory''))), Dir [])"
proof -
  let ?self = "\<lparr> fap_local_sandbox_dir = ''/tmp/sandbox/local_flytekit'',
                 fap_local = DiskPersistence tree_os 2,
                 fap_default_remote = DiskPersistence tree_os 1,
                 fap_raw_output_prefix = ''/tmp/raw'' \<rparr>"
  have f1: "find_plugin (module_PLUGINS tree_os) ''/nosrc'' = Inr (DiskPersistence tree_os 1)"
    by (simp add: module_PLUGINS_eq startswith_def)
  have d1: "dp_download (DiskPersistence tree_os 1) ''/nosrc'' ''/tmp/x'' (Dir [])
     = (Inl (FileNotFoundError ''/nosrc''), Dir [])"
    by (simp add: DiskPersistence_def DiskPersistence_download_def strip_file_header_def
          startswith_def tree_os_def tree_copyfile_def resolve_def components_def)
  have f2: "find_plugin (module_PLUGINS tree_os) ''s3://bucket/key''
     = Inl (TypeError ''No plugin found for matching protocol of path s3://bucket/key'')"
    by (simp add: module_PLUGINS_eq startswith_def)
  have u1: "dp_upload_directory (DiskPersistence tree_os 1) ''/nosrc'' ''/out/x'' (Dir [])
     = (Inl (DistutilsFileError (''cannot copy tree '' @ quoted ''/nosrc'' @ '': not a directory'')), Dir [])"
    by (simp add: DiskPersistence_def DiskPersistence_upload_directory_def
          DiskPersistence_download_directory_def strip_file_header_def
          startswith_def tree_os_def tree_copy_tree_def resolve_def components_def)
  have g1: "get_data (module_PLUGINS tree_os) ''/nosrc'' ''/tmp/x'' False (Dir [])
     = (Inl (FlyteAssertion (get_data_message ''/nosrc'' ''/tmp/x'' False
              (''[Errno 2] No such file or directory: '' @ quoted ''/nosrc''))), Dir [])"
    using transfer_failure_wrapped [where PLUGINS = "module_PLUGINS tree_os" and remote_path = "''/nosrc''"
        and p = "DiskPersistence tree_os 1" and is_multipart = False and local_path = "''/tmp/x''"
        and w = "Dir []" and ex = "FileNotFoundError ''/nosrc''" and w' = "Dir []"]
      f1 d1
    by (simp add: FileNotFoundError_def)
  have g2: "get_data (module_PLUGINS tree_os) ''s3://bucket/key'' ''/tmp/x'' True (Dir [])
     = (Inl (FlyteAssertion (get_data_message ''s3://bucket/key'' ''/tmp/x'' True
              ''No plugin found for matching protocol of path s3://bucket/key'')), Dir [])"
    using transfer_failure_wrapped [where PLUGINS = "module_PLUGINS tree_os"
        and remote_path = "''s3://bucket/key''" and is_multipart = True and local_path = "''/tmp/x''"
        and w = "Dir []"
        and ex = "TypeError ''No plugin found for matching protocol of path s3://bucket/key''"] f2
    by simp
  have p1: "put_data ?self ''/nosrc'' ''/out/x'' True (Dir [])
     = (Inl (FlyteAssertion (put_data_message ''/nosrc'' ''/out/x'' True
              (''cannot copy tree '' @ quoted ''/nosrc'' @ '': not a directory''))), Dir [])"
    using transfer_failure_wrapped [where is_multipart = True and remote_path = "''/out/x''"
        and w = "Dir []" and w' = "Dir []" and self = ?self and local_path = "''/nosrc''"
        and ex = "DistutilsFileError (''cannot copy tree '' @ quoted ''/nosrc'' @ '': not a directory'')"] u1
    by (simp add: DistutilsFileError_def)
  from f1 d1 g1 f2 g2 u1 p1 show ?thesis by blast
qed

lemma log_os_calls:
  "os_path_exists log_os p w = False"
  "os_path_isdir log_os p w = False"
  "os_makedirs log_os p w = (Inr (), w @ [Makedirs p])"
  "os_listdir log_os p w = Inr []"
  "os_walk log_os p w = []"
  "copyfile log_os src dst w = (Inr (), w @ [Copyfile src dst])"
  "copy_tree log_os src dst w = (Inr (), w @ [Copy_tree src dst])"
  "path_mkdir log_os p w = (Inr (), w @ [Mkdir p])"
  by (simp_all add: log_os_def)

lemma tree_os_calls:
  "os_path_exists tree_os = tree_exists"
  "os_path_isdir tree_os = tree_isdir"
  "os_makedirs tree_os = tree_makedirs"
  "os_listdir tree_os = tree_listdir"
  "os_walk tree_os = tree_walk"
  "copyfile tree_os = tree_copyfile"
  "copy_tree tree_os = tree_copy_tree"
  "path_mkdir tree_os = tree_path_mkdir"
  by (simp_all add: tree_os_def)

lemma endswith_rev: "endswith s k = prefix (rev k) (rev s)"
  by (simp add: endswith_def suffix_to_prefix)

lemma FileAccessProvider_init_default_remote:
  "FileAccessProvider_init os PLUGINS i local_sandbox_dir raw_output_prefix w = (Inr self, w')
   \<Longrightarrow> find_plugin PLUGINS raw_output_prefix = Inr (fap_default_remote self)
       \<and> fap_raw_output_prefix self = raw_output_prefix
       \<and> fap_local self = DiskPersistence os i"
  unfolding FileAccessProvider_init_def Let_def
  by (auto split: if_splits prod.splits sum.splits)

text \<open>
  Claim C5. The default remote backend of a client is the backend that the raw output
  prefix resolved to when the client was constructed. \<open>put_data\<close> is the upload (the
  directory upload when the flag is set) of that backend, with the failure wrapped: the
  registry is no argument of \<open>put_data\<close>, whatever the remote path resolves to. The
  pass-through \<open>upload\<close> and \<open>upload_directory\<close>, in contrast, call the backend
  that the remote path resolves to.
\<close>

theorem put_data_default_remote:
  "(FileAccessProvider_init os PLUGINS0 i local_sandbox_dir raw_output_prefix w0 = (Inr self, w1)
     \<longrightarrow> find_plugin PLUGINS0 raw_output_prefix = Inr (fap_default_remote self))
   \<and> put_data self local_path remote_path is_multipart w =
       (case (if is_multipart
              then dp_upload_directory (fap_default_remote self) local_path remote_path w
              else dp_upload (fap_default_remote self) local_path remote_path w) of
          (Inl ex, w') \<Rightarrow>
            (Inl (FlyteAssertion (put_data_message local_path remote_path is_multipart (str_exc ex))), w')
        | (Inr u, w') \<Rightarrow> (Inr (), w'))
   \<and> (find_plugin PLUGINS remote_path = Inr q
     \<longrightarrow> FileAccessProvider_upload PLUGINS local_path remote_path w
           = dp_upload q local_path remote_path w
         \<and> FileAccessProvider_upload_directory PLUGINS local_path remote_path w
           = dp_upload_directory q local_path remote_path w)"
proof (intro conjI impI)
  assume "FileAccessProvider_init os PLUGINS0 i local_sandbox_dir raw_output_prefix w0 = (Inr self, w1)"
  then show "find_plugin PLUGINS0 raw_output_prefix = Inr (fap_default_remote self)"
    by (simp add: FileAccessProvider_init_default_remote)
next
  show "put_data self local_path remote_path is_multipart w =
       (case (if is_multipart
              then dp_upload_directory (fap_default_remote self) local_path remote_path w
              else dp_upload (fap_default_remote self) local_path remote_path w) of
          (Inl ex, w') \<Rightarrow>
            (Inl (FlyteAssertion (put_data_message local_path remote_path is_multipart (str_exc ex))), w')
        | (Inr u, w') \<Rightarrow> (Inr (), w'))"
    by (rule put_data_outcome)
next
  assume "find_plugin PLUGINS remote_path = Inr q"
  then show "FileAccessProvider_upload PLUGINS local_path remote_path w
           = dp_upload q local_path remote_path w"
    by (simp add: FileAccessProvider_upload_def)
next
  assume "find_plugin PLUGINS remote_path = Inr q"
  then show "FileAccessProvider_upload_directory PLUGINS local_path remote_path w
           = dp_upload_directory q local_path remote_path w"
    by (simp add: FileAccessProvider_upload_directory_def)
qed

text \<open>
  The registry of the module with a backend \<^verbatim>\<open>mem\<close> for \<^verbatim>\<open>mem://\<close>, over the log of
  calls. A client with the raw output prefix \<^verbatim>\<open>/tmp/raw\<close> has the disk backend of \<^verbatim>\<open>/\<close>
  as its default remote. The path \<^verbatim>\<open>mem://bucket/k\<close> resolves to the mem backend, whose
  upload does nothing; \<open>put_data\<close> to that path calls the disk backend all the same,
  which creates the directory \<^verbatim>\<open>mem://bucket\<close> and copies the file.
\<close>

theorem put_data_default_remote_witness:
  "FileAccessProvider_init log_os
       [(''file://'', DiskPersistence log_os 0), (''/'', DiskPersistence log_os 1),
        (''mem://'', DataPersistence_init ''mem'' 3)] 2 (Some ''/tmp/sandbox'') ''/tmp/raw'' []
     = (Inr \<lparr> fap_local_sandbox_dir = ''/tmp/sandbox/local_flytekit'',
               fap_local = DiskPersistence log_os 2,
               fap_default_remote = DiskPersistence log_os 1,
               fap_raw_output_prefix = ''/tmp/raw'' \<rparr>, [Mkdir ''/tmp/sandbox/local_flytekit''])
   \<and> find_plugin [(''file://'', DiskPersistence log_os 0), (''/'', DiskPersistence log_os 1),
                  (''mem://'', DataPersistence_init ''mem'' 3)] ''/tmp/raw''
     = Inr (DiskPersistence log_os 1)
   \<and> find_plugin [(''file://'', DiskPersistence log_os 0), (''/'', DiskPersistence log_os 1),
                  (''mem://'', DataPersistence_init ''mem'' 3)] ''mem://bucket/k''
     = Inr (DataPersistence_init ''mem'' 3)
   \<and> FileAccessProvider_upload
        [(''file://'', DiskPersistence log_os 0), (''/'', DiskPersistence log_os 1),
         (''mem://'', DataPersistence_init ''mem'' 3)] ''/tmp/a'' ''mem://bucket/k'' []
     = (Inr (), [])
   \<and> put_data \<lparr> fap_local_sandbox_dir = ''/tmp/sandbox/local_flytekit'',
                 fap_local = DiskPersistence log_os 2,
                 fap_default_remote = DiskPersistence log_os 1,
                 fap_raw_output_prefix = ''/tmp/raw'' \<rparr> ''/tmp/a'' ''mem://bucket/k'' False []
     = (Inr (), [Makedirs ''mem://bucket'', Copyfile ''/tmp/a'' ''mem://bucket/k''])
   \<and> put_data \<lparr> fap_local_sandbox_dir = ''/tmp/sandbox/local_flytekit'',
                 fap_local = DiskPersistence log_os 2,
                 fap_default_remote = DiskPersistence log_os 1,
                 fap_raw_output_prefix = ''/tmp/raw'' \<rparr> ''/tmp/d'' ''mem://bucket/d'' True []
     = (Inr (), [Copy_tree ''/tmp/d'' ''mem://bucket/d''])"
proof -
  let ?mem = "DataPersistence_init ''mem'' 3 :: call list DataPersistence"
  let ?P = "[(''file://'', DiskPersistence log_os 0), (''/'', DiskPersistence log_os 1),
             (''mem://'', ?mem)]"
  let ?self = "\<lparr> fap_local_sandbox_dir = ''/tmp/sandbox/local_flytekit'',
                 fap_local = DiskPersistence log_os 2,
                 fap_default_remote = DiskPersistence log_os 1,
                 fap_raw_output_prefix = ''/tmp/raw'' \<rparr>"
  have i: "FileAccessProvider_init log_os ?P 2 (Some ''/tmp/sandbox'') ''/tmp/raw'' []
           = (Inr ?self, [Mkdir ''/tmp/sandbox/local_flytekit''])"
    by (simp add: FileAccessProvider_init_def Let_def os_path_join_def join_step_def
          startswith_def endswith_rev log_os_calls)
  have f1: "find_plugin ?P ''/tmp/raw'' = Inr (DiskPersistence log_os 1)"
    using put_data_default_remote [where os = log_os and ?PLUGINS0.0 = ?P and i = 2
        and local_sandbox_dir = "Some ''/tmp/sandbox''" and raw_output_prefix = "''/tmp/raw''"
        and ?w0.0 = "[]" and self = ?self and ?w1.0 = "[Mkdir ''/tmp/sandbox/local_flytekit'']"] i
    by simp
  have f2: "find_plugin ?P ''mem://bucket/k'' = Inr ?mem"
    by (simp add: startswith_def)
  have u: "FileAccessProvider_upload ?P ''/tmp/a'' ''mem://bucket/k'' [] = (Inr (), [])"
    using put_data_default_remote [where PLUGINS = ?P and remote_path = "''mem://bucket/k''"
        and q = ?mem and local_path = "''/tmp/a''" and w = "[]"] f2
    by (simp add: DataPersistence_init_def)
  have dn: "os_path_dirname ''mem://bucket/k'' = ''mem://bucket''"
    by (simp add: os_path_dirname_def rfind_def rstrip_sep_def Let_def)
  have p1: "put_data ?self ''/tmp/a'' ''mem://bucket/k'' False []
     = (Inr (), [Makedirs ''mem://bucket'', Copyfile ''/tmp/a'' ''mem://bucket/k''])"
    using put_data_default_remote [where self = ?self and local_path = "''/tmp/a''"
        and remote_path = "''mem://bucket/k''" and is_multipart = False and w = "[]"]
    by (simp add: DiskPersistence_def DiskPersistence_upload_def make_local_path_def
          strip_file_header_def startswith_def dn log_os_calls)
  have p2: "put_data ?self ''/tmp/d'' ''mem://bucket/d'' True []
     = (Inr (), [Copy_tree ''/tmp/d'' ''mem://bucket/d''])"
    using put_data_default_remote [where self = ?self and local_path = "''/tmp/d''"
        and remote_path = "''mem://bucket/d''" and is_multipart = True and w = "[]"]
    by (simp add: DiskPersistence_def DiskPersistence_upload_directory_def
          DiskPersistence_download_directory_def
          strip_file_header_def startswith_def log_os_calls)
  from i f1 f2 u p1 p2 show ?thesis by blast
qed

subsection \<open>The disk backend\<close>

lemma strip_file_header_prefixed: "strip_file_header (''file://'' @ p) = p"
  by (simp add: strip_file_header_def startswith_def)

lemma strip_file_header_plain: "\<not> startswith p ''file://'' \<Longrightarrow> strip_file_header p = p"
  by (simp add: strip_file_header_def)

text \<open>
  Claim C9. For paths \<open>p\<close> and \<open>q\<close> that do not begin with \<^verbatim>\<open>file://\<close>, each
  operation of the disk backend called with \<^verbatim>\<open>file://\<close> put before every path
  argument returns what it returns for the bare paths, and leaves the same world, whatever
  the file system calls do.
\<close>

theorem file_header_interchangeable:
  assumes "\<not> startswith p ''file://''" and "\<not> startswith q ''file://''"
  shows "DiskPersistence_exists os (''file://'' @ p) w = DiskPersistence_exists os p w
       \<and> DiskPersistence_download os (''file://'' @ p) (''file://'' @ q) w
         = DiskPersistence_download os p q w
       \<and> DiskPersistence_download_directory os (''file://'' @ p) (''file://'' @ q) w
         = DiskPersistence_download_directory os p q w
       \<and> DiskPersistence_upload os (''file://'' @ p) (''file://'' @ q) w
         = DiskPersistence_upload os p q w
       \<and> DiskPersistence_upload_directory os (''file://'' @ p) (''file://'' @ q) w
         = DiskPersistence_upload_directory os p q w
       \<and> DiskPersistence_listdir os (''file://'' @ p) recursive w
         = DiskPersistence_listdir os p recursive w"
proof -
  have sp: "strip_file_header (''file://'' @ p) = strip_file_header p"
    using assms(1) strip_file_header_prefixed [of p] strip_file_header_plain [of p] by argo
  have sq: "strip_file_header (''file://'' @ q) = strip_file_header q"
    using assms(2) strip_file_header_prefixed [of q] strip_file_header_plain [of q] by argo
  have eq: "(''file://'' @ p = ''file://'' @ q) = (p = q)"
    by simp
  show ?thesis
    unfolding DiskPersistence_exists_def DiskPersistence_download_def
      DiskPersistence_upload_directory_def DiskPersistence_download_directory_def
      DiskPersistence_upload_def DiskPersistence_listdir_def sp sq eq
    by simp
qed

text \<open>
  The directory \<^verbatim>\<open>/data\<close> with the file \<^verbatim>\<open>a.txt\<close>: listed, tested and copied to
  \<^verbatim>\<open>/out/a.txt\<close> under the names \<^verbatim>\<open>file:///data\<close> and \<^verbatim>\<open>file:///out/a.txt\<close>.
\<close>

theorem file_header_interchangeable_witness:
  "\<not> startswith ''/data'' ''file://'' \<and> \<not> startswith ''/out/a.txt'' ''file://''
   \<and> \<not> startswith ''/data/a.txt'' ''file://''
   \<and> DiskPersistence_exists tree_os ''file:///data'' (Dir [(''data'', Dir [(''a.txt'', File ''A'')])])
   \<and> DiskPersistence_listdir tree_os ''file:///data'' False (Dir [(''data'', Dir [(''a.txt'', File ''A'')])])
     = (Inr [''a.txt''], Dir [(''data'', Dir [(''a.txt'', File ''A'')])])
   \<and> DiskPersistence_upload tree_os ''file:///data/a.txt'' ''file:///out/a.txt''
        (Dir [(''data'', Dir [(''a.txt'', File ''A'')])])
     = (Inr (), Dir [(''data'', Dir [(''a.txt'', File ''A'')]), (''out'', Dir [(''a.txt'', File ''A'')])])"
proof -
  let ?fs = "Dir [(''data'', Dir [(''a.txt'', File ''A'')])]"
  have h1: "\<not> startswith ''/data'' ''file://''"
    and h2: "\<not> startswith ''/out/a.txt'' ''file://''"
    and h3: "\<not> startswith ''/data/a.txt'' ''file://''"
    by (simp_all add: startswith_def)
  have e: "DiskPersistence_exists tree_os ''/data'' ?fs"
    by (simp add: DiskPersistence_exists_def strip_file_header_plain [OF h1] tree_os_calls
          tree_exists_def resolve_def components_def)
  have l: "DiskPersistence_listdir tree_os ''/data'' False ?fs = (Inr [''a.txt''], ?fs)"
    by (simp add: DiskPersistence_listdir_def strip_file_header_plain [OF h1] tree_os_calls
          tree_listdir_def resolve_def components_def)
  have dn: "os_path_dirname ''/out/a.txt'' = ''/out''"
    by (simp add: os_path_dirname_def rfind_def rstrip_sep_def Let_def)
  have u: "DiskPersistence_upload tree_os ''/data/a.txt'' ''/out/a.txt'' ?fs
     = (Inr (), Dir [(''data'', Dir [(''a.txt'', File ''A'')]), (''out'', Dir [(''a.txt'', File ''A'')])])"
    by (simp add: DiskPersistence_upload_def strip_file_header_plain [OF h2]
          strip_file_header_plain [OF h3] dn make_local_path_def tree_os_calls
          tree_exists_def tree_makedirs_def tree_copyfile_def tree_isdir_def
          resolve_def components_def)
  from file_header_interchangeable [OF h1 h2, of tree_os ?fs False]
       file_header_interchangeable [OF h3 h2, of tree_os ?fs False]
       h1 h2 h3 e l u
  show ?thesis by simp
qed

text \<open>
  Claim C10. The directory upload of the disk backend is its directory download, as
  functions: for every pair of paths it is the no-op when the two strings are equal and
  otherwise the one call of \<^verbatim>\<open>copy_tree\<close> on the stripped paths, with no call of
  \<open>make_local_path\<close> before it. On the log of calls, the upload of a file first creates
  the directory of the destination and the upload of a directory does not; on the empty
  file system, the failed upload of a file leaves the directory \<^verbatim>\<open>/out\<close> behind and the
  failed upload of a directory leaves nothing.
\<close>

theorem upload_directory_is_download_directory:
  "DiskPersistence_upload_directory os = DiskPersistence_download_directory os
   \<and> dp_upload_directory (DiskPersistence os i) = dp_download_directory (DiskPersistence os i)
   \<and> DiskPersistence_upload_directory os from_path to_path w
     = (if from_path = to_path then (Inr (), w)
        else copy_tree os (strip_file_header from_path) (strip_file_header to_path) w)
   \<and> DiskPersistence_upload_directory log_os ''/tmp/d'' ''/out/sub/d'' []
     = (Inr (), [Copy_tree ''/tmp/d'' ''/out/sub/d''])
   \<and> DiskPersistence_upload log_os ''/tmp/d'' ''/out/sub/d'' []
     = (Inr (), [Makedirs ''/out/sub'', Copyfile ''/tmp/d'' ''/out/sub/d''])
   \<and> DiskPersistence_upload_directory tree_os ''/nosrc'' ''/out/x'' (Dir [])
     = (Inl (DistutilsFileError (''cannot copy tree '' @ quoted ''/nosrc'' @ '': not a directory'')), Dir [])
   \<and> DiskPersistence_upload tree_os ''/nosrc'' ''/out/x'' (Dir [])
     = (Inl (FileNotFoundError ''/nosrc''), Dir [(''out'', Dir [])])"
proof -
  have 1: "DiskPersistence_upload_directory os = DiskPersistence_download_directory os"
    by (intro ext) (simp add: DiskPersistence_upload_directory_def)
  have 2: "dp_upload_directory (DiskPersistence os i) = dp_download_directory (DiskPersistence os i)"
    by (simp add: DiskPersistence_def 1)
  have 3: "DiskPersistence_upload_directory os from_path to_path w
     = (if from_path = to_path then (Inr (), w)
        else copy_tree os (strip_file_header from_path) (strip_file_header to_path) w)"
    by (simp add: DiskPersistence_upload_directory_def DiskPersistence_download_directory_def)
  have 4: "DiskPersistence_upload_directory log_os ''/tmp/d'' ''/out/sub/d'' []
     = (Inr (), [Copy_tree ''/tmp/d'' ''/out/sub/d''])"
    by (simp add: DiskPersistence_upload_directory_def DiskPersistence_download_directory_def
          strip_file_header_def startswith_def log_os_calls)
  have dn: "os_path_dirname ''/out/sub/d'' = ''/out/sub''" "os_path_dirname ''/out/x'' = ''/out''"
    by (simp_all add: os_path_dirname_def rfind_def rstrip_sep_def Let_def)
  have 5: "DiskPersistence_upload log_os ''/tmp/d'' ''/out/sub/d'' []
     = (Inr (), [Makedirs ''/out/sub'', Copyfile ''/tmp/d'' ''/out/sub/d''])"
    by (simp add: DiskPersistence_upload_def make_local_path_def strip_file_header_def
          startswith_def dn log_os_calls)
  have 6: "DiskPersistence_upload_directory tree_os ''/nosrc'' ''/out/x'' (Dir [])
     = (Inl (DistutilsFileError (''cannot copy tree '' @ quoted ''/nosrc'' @ '': not a directory'')), Dir [])"
    by (simp add: DiskPersistence_upload_directory_def DiskPersistence_download_directory_def
          strip_file_header_def startswith_def tree_os_calls tree_copy_tree_def
          resolve_def components_def)
  have 7: "DiskPersistence_upload tree_os ''/nosrc'' ''/out/x'' (Dir [])
     = (Inl (FileNotFoundError ''/nosrc''), Dir [(''out'', Dir [])])"
    by (simp add: DiskPersistence_upload_def make_local_path_def strip_file_header_def
          startswith_def dn tree_os_calls tree_exists_def tree_makedirs_def tree_copyfile_def
          resolve_def components_def)
  from 1 2 3 4 5 6 7 show ?thesis by blast
qed

text \<open>
  Claim C8, as the code has it. The directory download of the disk backend compares the
  two path strings as they are given: when they are equal it is a no-op, returning
  \<^verbatim>\<open>None\<close> and leaving the world as it is; when they differ it calls \<^verbatim>\<open>copy_tree\<close> on the
  stripped paths, also when the two name one location.
\<close>

theorem download_directory_identical_paths:
  "DiskPersistence_download_directory os p p w = (Inr (), w)
   \<and> (from_path \<noteq> to_path
     \<longrightarrow> DiskPersistence_download_directory os from_path to_path w
         = copy_tree os (strip_file_header from_path) (strip_file_header to_path) w)"
  by (simp add: DiskPersistence_download_directory_def)

theorem download_directory_identical_paths_witness:
  "''file:///d'' \<noteq> ''/d''
   \<and> DiskPersistence_download_directory log_os ''/d'' ''/d'' [] = (Inr (), [])
   \<and> DiskPersistence_download_directory log_os ''file:///d'' ''/d'' []
     = copy_tree log_os ''/d'' ''/d'' []"
proof -
  have h: "''file:///d'' \<noteq> ''/d''" by simp
  from download_directory_identical_paths [of log_os "''/d''" "[]" "''file:///d''" "''/d''"] h
  show ?thesis by (simp add: strip_file_header_def startswith_def)
qed

text \<open>
  Claim C8 as stated fails for a path and its \<^verbatim>\<open>file://\<close> form. \<^verbatim>\<open>file:///d\<close> and
  \<^verbatim>\<open>/d\<close> are stripped to the same path, and the download from the one to the other calls
  \<^verbatim>\<open>copy_tree\<close> from \<^verbatim>\<open>/d\<close> to \<^verbatim>\<open>/d\<close>; where \<^verbatim>\<open>/d\<close> does not exist that call raises, while
  the download from \<^verbatim>\<open>/d\<close> to \<^verbatim>\<open>/d\<close> returns.
\<close>

theorem download_directory_same_location_counterexample:
  "strip_file_header ''file:///d'' = strip_file_header ''/d''
   \<and> DiskPersistence_download_directory log_os ''file:///d'' ''/d'' []
     = (Inr (), [Copy_tree ''/d'' ''/d''])
   \<and> DiskPersistence_download_directory log_os ''/d'' ''/d'' [] = (Inr (), [])
   \<and> DiskPersistence_download_directory tree_os ''file:///d'' ''/d'' (Dir [])
     = (Inl (DistutilsFileError (''cannot copy tree '' @ quoted ''/d'' @ '': not a directory'')), Dir [])
   \<and> DiskPersistence_download_directory tree_os ''/d'' ''/d'' (Dir []) = (Inr (), Dir [])"
  by (simp add: DiskPersistence_download_directory_def strip_file_header_def startswith_def
        log_os_calls tree_os_calls tree_copy_tree_def resolve_def components_def)

lemma startswith_sep: "startswith s ''/'' = (s \<noteq> [] \<and> hd s = CHR ''/'')"
  by (cases s) (auto simp: startswith_def)

lemma endswith_sep: "endswith s ''/'' = (s \<noteq> [] \<and> last s = CHR ''/'')"
proof (cases s rule: rev_cases)
  case Nil
  then show ?thesis by (simp add: endswith_def)
next
  case (snoc ys y)
  then show ?thesis by (simp add: endswith_def suffix_def)
qed

text \<open>Joining a name and then a relative path is joining the relative path under the name.\<close>

lemma join_nested:
  assumes "n \<noteq> []" and "CHR ''/'' \<notin> set n" and "\<not> startswith r ''/''"
  shows "os_path_join (os_path_join t [n]) [r] = os_path_join t [n @ ''/'' @ r]"
proof -
  have hd: "hd n \<noteq> CHR ''/''" and last: "last n \<noteq> CHR ''/''"
    using assms(1,2) by (auto dest: hd_in_set last_in_set)
  have n: "\<not> startswith n ''/''" and nr: "\<not> startswith (n @ ''/'' @ r) ''/''"
    using assms(1) hd by (simp_all add: startswith_sep)
  have e1: "\<not> endswith (t @ n) ''/''" and e2: "\<not> endswith (t @ ''/'' @ n) ''/''"
    using assms(1) last by (simp_all add: endswith_sep)
  show ?thesis
    using n nr e1 e2 assms(1,3)
    by (simp add: os_path_join_def join_step_def)
qed

lemma rel_files_relative:
  "valid_names n \<Longrightarrow> r \<in> set (rel_files n) \<Longrightarrow> \<not> startswith r ''/''"
proof (induction n arbitrary: r rule: rel_files.induct)
  case (1 c)
  then show ?case by simp
next
  case (2 es)
  from "2.prems"(1) have v: "\<And>e. e \<in> set es \<Longrightarrow> fst e \<noteq> [] \<and> CHR ''/'' \<notin> set (fst e)"
    by (simp add: list_all_iff)
  from "2.prems"(2) consider
      (leaf) e where "e \<in> set es" and "r = fst e"
    | (nested) e r' where "e \<in> set es" and "r = fst e @ ''/'' @ r'"
    by auto
  then show ?case
  proof cases
    case leaf
    with v [of e] show ?thesis by (auto simp: startswith_sep dest: hd_in_set)
  next
    case nested
    with v [of e] show ?thesis by (auto simp: startswith_sep dest: hd_in_set)
  qed
qed

lemma concat_map_concat_map:
  "concat (map f (concat (map g xs))) = concat (map (\<lambda>x. concat (map f (g x))) xs)"
  by (induction xs) simp_all

text \<open>What the recursive listing makes of the triples of a walk.\<close>

lemma listing_walk_node:
  "valid_names n \<Longrightarrow>
   concat (map (\<lambda>(root, subdirs, files). map (\<lambda>f. os_path_join root [f]) files) (walk_node t n))
   = map (\<lambda>r. os_path_join t [r]) (rel_files n)"
proof (induction t n rule: walk_node.induct)
  case (1 t c)
  then show ?case by simp
next
  case (2 t es)
  let ?out = "\<lambda>(root, subdirs, files). map (\<lambda>f. os_path_join root [f]) files"
  have v: "\<And>e. e \<in> set es \<Longrightarrow> fst e \<noteq> [] \<and> CHR ''/'' \<notin> set (fst e) \<and> valid_names (snd e)"
    using "2.prems" by (simp add: list_all_iff)
  have sub: "concat (map ?out (walk_node (os_path_join t [fst e]) (snd e)))
             = map (\<lambda>r. os_path_join t [fst e @ ''/'' @ r]) (rel_files (snd e))"
    if e: "e \<in> set es" for e
  proof -
    have "concat (map ?out (walk_node (os_path_join t [fst e]) (snd e)))
          = map (\<lambda>r. os_path_join (os_path_join t [fst e]) [r]) (rel_files (snd e))"
      using "2.IH" [OF e] v [OF e] by simp
    also have "\<dots> = map (\<lambda>r. os_path_join t [fst e @ ''/'' @ r]) (rel_files (snd e))"
      using v [OF e] rel_files_relative [of "snd e"]
      by (intro map_cong refl join_nested) auto
    finally show ?thesis .
  qed
  have "concat (map ?out (concat (map (\<lambda>e. walk_node (os_path_join t [fst e]) (snd e)) es)))
        = concat (map (\<lambda>e. concat (map ?out (walk_node (os_path_join t [fst e]) (snd e)))) es)"
    by (rule concat_map_concat_map)
  also have "\<dots> = concat (map (\<lambda>e. map (\<lambda>r. os_path_join t [fst e @ ''/'' @ r]) (rel_files (snd e))) es)"
    using sub by (intro arg_cong [where f = concat] map_cong refl)
  also have "\<dots> = map (\<lambda>r. os_path_join t [r])
                     (concat (map (\<lambda>e. map (\<lambda>r. fst e @ ''/'' @ r) (rel_files (snd e))) es))"
    by (simp add: map_concat comp_def)
  finally show ?case by simp
qed
text \<open>
  Claim C7, as the code has it, on the file system of section \<open>A file system\<close>. For a
  path that names a directory (after \<^verbatim>\<open>file://\<close> is stripped), the listing that is not
  recursive yields the names of all entries of the directory, files and subdirectories
  alike; the recursive listing yields, for each file below the directory, the stripped path
  of the directory joined with the path of the file relative to the directory.
\<close>

theorem listdir_yields:
  assumes "resolve fs (strip_file_header path) = Some (Dir es)" and "valid_names (Dir es)"
  shows "DiskPersistence_listdir tree_os path False fs = (Inr (map fst es), fs)
       \<and> DiskPersistence_listdir tree_os path True fs
         = (Inr (map (\<lambda>r. os_path_join (strip_file_header path) [r]) (rel_files (Dir es))), fs)"
proof
  show "DiskPersistence_listdir tree_os path False fs = (Inr (map fst es), fs)"
    using assms(1) by (simp add: DiskPersistence_listdir_def tree_os_calls tree_listdir_def)
  have "tree_walk (strip_file_header path) fs = walk_node (strip_file_header path) (Dir es)"
    using assms(1) by (simp add: tree_walk_def)
  then show "DiskPersistence_listdir tree_os path True fs
         = (Inr (map (\<lambda>r. os_path_join (strip_file_header path) [r]) (rel_files (Dir es))), fs)"
    using listing_walk_node [OF assms(2), of "strip_file_header path"]
    by (simp add: DiskPersistence_listdir_def tree_os_calls)
qed

text \<open>
  The directory \<^verbatim>\<open>/data\<close> with the file \<^verbatim>\<open>a.txt\<close> and the subdirectory \<^verbatim>\<open>sub\<close>, which
  holds the file \<^verbatim>\<open>b.txt\<close>: the relative paths of its files are \<^verbatim>\<open>a.txt\<close> and
  \<^verbatim>\<open>sub/b.txt\<close>.
\<close>

theorem listdir_yields_witness:
  "resolve (Dir [(''data'', Dir [(''a.txt'', File ''A''), (''sub'', Dir [(''b.txt'', File ''B'')])])])
      (strip_file_header ''file:///data'')
     = Some (Dir [(''a.txt'', File ''A''), (''sub'', Dir [(''b.txt'', File ''B'')])])
   \<and> valid_names (Dir [(''a.txt'', File ''A''), (''sub'', Dir [(''b.txt'', File ''B'')])])
   \<and> rel_files (Dir [(''a.txt'', File ''A''), (''sub'', Dir [(''b.txt'', File ''B'')])])
     = [''a.txt'', ''sub/b.txt'']
   \<and> DiskPersistence_listdir tree_os ''file:///data'' False
        (Dir [(''data'', Dir [(''a.txt'', File ''A''), (''sub'', Dir [(''b.txt'', File ''B'')])])])
     = (Inr [''a.txt'', ''sub''],
        Dir [(''data'', Dir [(''a.txt'', File ''A''), (''sub'', Dir [(''b.txt'', File ''B'')])])])
   \<and> DiskPersistence_listdir tree_os ''file:///data'' True
        (Dir [(''data'', Dir [(''a.txt'', File ''A''), (''sub'', Dir [(''b.txt'', File ''B'')])])])
     = (Inr [''/data/a.txt'', ''/data/sub/b.txt''],
        Dir [(''data'', Dir [(''a.txt'', File ''A''), (''sub'', Dir [(''b.txt'', File ''B'')])])])"
proof -
  let ?d = "Dir [(''a.txt'', File ''A''), (''sub'', Dir [(''b.txt'', File ''B'')])]"
  let ?fs = "Dir [(''data'', ?d)]"
  have s: "strip_file_header ''file:///data'' = ''/data''"
    by (simp add: strip_file_header_def startswith_def)
  have h1: "resolve ?fs (strip_file_header ''file:///data'') = Some ?d"
    by (simp add: s resolve_def components_def)
  have h2: "valid_names ?d"
    by simp
  have r: "rel_files ?d = [''a.txt'', ''sub/b.txt'']"
    by simp
  have j: "os_path_join ''/data'' [''a.txt''] = ''/data/a.txt''"
    "os_path_join ''/data'' [''sub/b.txt''] = ''/data/sub/b.txt''"
    by (simp_all add: os_path_join_def join_step_def startswith_def endswith_rev)
  from listdir_yields [OF h1 h2] h1 h2 r show ?thesis
    by (simp add: s j)
qed

text \<open>
  Claim C7 as stated fails on its own example. For the directory \<^verbatim>\<open>/data\<close> that holds
  \<^verbatim>\<open>a.txt\<close> and \<^verbatim>\<open>sub/b.txt\<close>, the listing that is not recursive yields \<^verbatim>\<open>a.txt\<close> and
  \<^verbatim>\<open>sub\<close>, not \<^verbatim>\<open>a.txt\<close> only; the recursive listing yields \<^verbatim>\<open>/data/a.txt\<close> and
  \<^verbatim>\<open>/data/sub/b.txt\<close>, not the paths \<^verbatim>\<open>a.txt\<close> and \<^verbatim>\<open>sub/b.txt\<close> relative to the root of
  the walk.
\<close>

theorem listdir_example_counterexample:
  "DiskPersistence_listdir tree_os ''/data'' False
        (Dir [(''data'', Dir [(''a.txt'', File ''A''), (''sub'', Dir [(''b.txt'', File ''B'')])])])
     = (Inr [''a.txt'', ''sub''],
        Dir [(''data'', Dir [(''a.txt'', File ''A''), (''sub'', Dir [(''b.txt'', File ''B'')])])])
   \<and> DiskPersistence_listdir tree_os ''/data'' True
        (Dir [(''data'', Dir [(''a.txt'', File ''A''), (''sub'', Dir [(''b.txt'', File ''B'')])])])
     = (Inr [''/data/a.txt'', ''/data/sub/b.txt''],
        Dir [(''data'', Dir [(''a.txt'', File ''A''), (''sub'', Dir [(''b.txt'', File ''B'')])])])
   \<and> fst (DiskPersistence_listdir tree_os ''/data'' False
        (Dir [(''data'', Dir [(''a.txt'', File ''A''), (''sub'', Dir [(''b.txt'', File ''B'')])])]))
     \<noteq> Inr [''a.txt'']
   \<and> fst (DiskPersistence_listdir tree_os ''/data'' True
        (Dir [(''data'', Dir [(''a.txt'', File ''A''), (''sub'', Dir [(''b.txt'', File ''B'')])])]))
     \<noteq> Inr [''a.txt'', ''sub/b.txt'']"
  by (simp add: DiskPersistence_listdir_def strip_file_header_def startswith_def tree_os_calls
        tree_listdir_def tree_walk_def resolve_def components_def
        os_path_join_def join_step_def endswith_rev)

subsection \<open>Random paths\<close>

text \<open>The rendering of the key: 32 hexadecimal digits.\<close>

lemma length_uuid_hex: "length (uuid_hex n) = 32"
  by (simp add: uuid_hex_def)

lemma hex_digit_range: "d < 16 \<Longrightarrow> hex_digit d \<in> set ''0123456789abcdef''"
  unfolding hex_digit_def by (rule nth_mem) simp

lemma set_uuid_hex: "set (uuid_hex n) \<subseteq> set ''0123456789abcdef''"
proof -
  have "unat (x AND 15) < 16" for x :: "128 word"
  proof -
    have "x AND 15 \<le> 15" by (rule word_and_le1)
    then have "unat (x AND 15) \<le> unat (15 :: 128 word)" by (simp add: word_le_nat_alt)
    then show ?thesis by simp
  qed
  then show ?thesis
    unfolding uuid_hex_def using hex_digit_range by (auto simp del: set_simps list.set)
qed

text \<open>The first statement of \<open>construct_random_path\<close> raises, whatever the arguments.\<close>

lemma construct_random_path_raises:
  "construct_random_path self persist hint bits =
     Inl (AttributeError (quoted ''builtin_function_or_method'' @ '' object has no attribute ''
                          @ quoted ''getrandbits''))"
  by (simp add: construct_random_path_def interfaces_random_def)

text \<open>
  Claim C3. No random path is generated: \<^verbatim>\<open>random\<close> is the generator itself, so
  \<^verbatim>\<open>random.random\<close> is its method \<^verbatim>\<open>random()\<close>, which has no attribute
  \<^verbatim>\<open>getrandbits\<close>, and \<open>construct_random_path\<close> raises an \<^verbatim>\<open>AttributeError\<close> for every
  client, backend, hint and value the generator would draw. So do the local and the remote
  variants, and \<open>get_random_local_directory\<close> creates nothing. In particular the module's
  own client, \<^verbatim>\<open>default_local_file_access_provider\<close>, returns no path for the hint
  \<^verbatim>\<open>dir/result.csv\<close>.
\<close>

theorem random_path_raises:
  "construct_random_path self persist hint bits =
     Inl (AttributeError (quoted ''builtin_function_or_method'' @ '' object has no attribute ''
                          @ quoted ''getrandbits''))
   \<and> get_random_remote_path self hint bits =
     Inl (AttributeError (quoted ''builtin_function_or_method'' @ '' object has no attribute ''
                          @ quoted ''getrandbits''))
   \<and> get_random_remote_directory self bits =
     Inl (AttributeError (quoted ''builtin_function_or_method'' @ '' object has no attribute ''
                          @ quoted ''getrandbits''))
   \<and> get_random_local_path self hint bits =
     Inl (AttributeError (quoted ''builtin_function_or_method'' @ '' object has no attribute ''
                          @ quoted ''getrandbits''))
   \<and> get_random_local_directory os self bits w =
     (Inl (AttributeError (quoted ''builtin_function_or_method'' @ '' object has no attribute ''
                           @ quoted ''getrandbits'')), w)
   \<and> default_local_file_access_provider tree_os ''20211103_101500'' (Dir [])
     = (Inr \<lparr> fap_local_sandbox_dir = ''/tmp/flyte/20211103_101500/sandbox/local_flytekit'',
               fap_local = DiskPersistence tree_os 2,
               fap_default_remote = DiskPersistence tree_os 1,
               fap_raw_output_prefix = ''/tmp/flyte/20211103_101500/raw'' \<rparr>,
        Dir [(''tmp'', Dir [(''flyte'', Dir [(''20211103_101500'',
               Dir [(''sandbox'', Dir [(''local_flytekit'', Dir [])])])])])])
   \<and> get_random_local_path
        \<lparr> fap_local_sandbox_dir = ''/tmp/flyte/20211103_101500/sandbox/local_flytekit'',
          fap_local = DiskPersistence tree_os 2,
          fap_default_remote = DiskPersistence tree_os 1,
          fap_raw_output_prefix = ''/tmp/flyte/20211103_101500/raw'' \<rparr> (Some ''dir/result.csv'') 0
     = Inl (AttributeError (quoted ''builtin_function_or_method'' @ '' object has no attribute ''
                            @ quoted ''getrandbits''))"
proof -
  let ?self = "\<lparr> fap_local_sandbox_dir = ''/tmp/flyte/20211103_101500/sandbox/local_flytekit'',
          fap_local = DiskPersistence tree_os 2,
          fap_default_remote = DiskPersistence tree_os 1,
          fap_raw_output_prefix = ''/tmp/flyte/20211103_101500/raw'' \<rparr>"
  have j: "os_path_join ''/tmp/flyte'' [''20211103_101500''] = ''/tmp/flyte/20211103_101500''"
    "os_path_join ''/tmp/flyte/20211103_101500'' [''sandbox''] = ''/tmp/flyte/20211103_101500/sandbox''"
    "os_path_join ''/tmp/flyte/20211103_101500'' [''raw''] = ''/tmp/flyte/20211103_101500/raw''"
    "os_path_join ''/tmp/flyte/20211103_101500/sandbox'' [''local_flytekit'']
       = ''/tmp/flyte/20211103_101500/sandbox/local_flytekit''"
    by (simp_all add: os_path_join_def join_step_def startswith_def endswith_rev)
  have m: "tree_path_mkdir ''/tmp/flyte/20211103_101500/sandbox/local_flytekit'' (Dir [])
     = (Inr (), Dir [(''tmp'', Dir [(''flyte'', Dir [(''20211103_101500'',
               Dir [(''sandbox'', Dir [(''local_flytekit'', Dir [])])])])])])"
    by (simp add: tree_path_mkdir_def components_def)
  have 1: "default_local_file_access_provider tree_os ''20211103_101500'' (Dir [])
     = (Inr ?self, Dir [(''tmp'', Dir [(''flyte'', Dir [(''20211103_101500'',
               Dir [(''sandbox'', Dir [(''local_flytekit'', Dir [])])])])])])"
    by (simp add: default_local_file_access_provider_def Let_def j FileAccessProvider_init_def
          tree_os_calls m module_PLUGINS_eq startswith_def)
  have 2: "get_random_remote_path self hint bits =
     Inl (AttributeError (quoted ''builtin_function_or_method'' @ '' object has no attribute ''
                          @ quoted ''getrandbits''))"
    by (simp only: get_random_remote_path_def construct_random_path_raises)
  have 3: "get_random_remote_directory self bits =
     Inl (AttributeError (quoted ''builtin_function_or_method'' @ '' object has no attribute ''
                          @ quoted ''getrandbits''))"
    by (simp only: get_random_remote_directory_def get_random_remote_path_def
          construct_random_path_raises)
  have 4: "get_random_local_path s h b =
     Inl (AttributeError (quoted ''builtin_function_or_method'' @ '' object has no attribute ''
                          @ quoted ''getrandbits''))" for s :: "'c FileAccessProvider" and h b
    by (simp only: get_random_local_path_def construct_random_path_raises)
  have 5: "get_random_local_directory os self bits w =
     (Inl (AttributeError (quoted ''builtin_function_or_method'' @ '' object has no attribute ''
                           @ quoted ''getrandbits'')), w)"
    by (simp add: get_random_local_directory_def 4)
  from construct_random_path_raises [of self persist hint bits] 1 2 3 4 [of self hint bits]
    4 [of ?self "Some ''dir/result.csv''" 0] 5
  show ?thesis by blast
qed

end
